theory Spec2Isabelle
  imports Complex_Main "HOL-Library.Log_Nat"
begin

section \<open>JavaScript numbers and the built-ins the loaders call\<close>

text \<open>
  A JavaScript number is a binary64 value: a finite rational, one of the two infinities,
  or NaN. The sign of zero is not kept (no comparison or truthiness test in the loaders
  distinguishes \<open>-0\<close> from \<open>0\<close>).
\<close>

datatype jsnum = NaN | NegInf | Fin rat | PosInf

definition isNaN :: "jsnum \<Rightarrow> bool" where
  "isNaN n = (n = NaN)"

text \<open>The relational operators: every comparison with NaN is false.\<close>

fun js_lt :: "jsnum \<Rightarrow> jsnum \<Rightarrow> bool" where
  "js_lt NaN b = False"
| "js_lt a NaN = False"
| "js_lt PosInf b = False"
| "js_lt a NegInf = False"
| "js_lt NegInf b = True"
| "js_lt a PosInf = True"
| "js_lt (Fin x) (Fin y) = (x < y)"

definition js_gt :: "jsnum \<Rightarrow> jsnum \<Rightarrow> bool" where
  "js_gt a b = js_lt b a"

definition js_le :: "jsnum \<Rightarrow> jsnum \<Rightarrow> bool" where
  "js_le a b = (a \<noteq> NaN \<and> b \<noteq> NaN \<and> \<not> js_lt b a)"

definition js_ge :: "jsnum \<Rightarrow> jsnum \<Rightarrow> bool" where
  "js_ge a b = (a \<noteq> NaN \<and> b \<noteq> NaN \<and> \<not> js_lt a b)"

text \<open>
  \<open>x || 0\<close> on a number: NaN and zero are falsy, every other number is kept.
\<close>

definition or_zero :: "jsnum \<Rightarrow> jsnum" where
  "or_zero n = (if n = NaN \<or> n = Fin 0 then Fin 0 else n)"

subsection \<open>Rounding a positive ratio to the nearest binary64\<close>

definition ilog2q :: "int \<Rightarrow> int \<Rightarrow> int" where
  \<comment> \<open>\<open>\<lfloor>log\<^sub>2 (a / b)\<rfloor>\<close> for positive \<open>a\<close> and \<open>b\<close>\<close>
  "ilog2q a b =
     (let k = bitlen a - bitlen b
      in if (if 0 \<le> k then b * 2 ^ nat k \<le> a else b \<le> a * 2 ^ nat (- k)) then k else k - 1)"

definition round_half_even :: "int \<Rightarrow> int \<Rightarrow> int" where
  "round_half_even n d =
     (let q = n div d; r = n mod d
      in if 2 * r < d then q else if d < 2 * r then q + 1 else if even q then q else q + 1)"

definition to_double :: "bool \<Rightarrow> int \<Rightarrow> int \<Rightarrow> jsnum" where
  \<comment> \<open>the binary64 nearest to \<open>\<plusminus> a / b\<close> (ties to even): 53 significant bits, least
      exponent \<open>-1074\<close>, overflow to an infinity from \<open>2 ^ 1024\<close> on\<close>
  "to_double neg a b =
     (if a = 0 then Fin 0
      else let e = ilog2q a b;
               p = max e (- 1022) - 52;
               m = (if 0 \<le> p then round_half_even a (b * 2 ^ nat p)
                    else round_half_even (a * 2 ^ nat (- p)) b)
           in if 971 < p \<or> (p = 971 \<and> 2 ^ 53 \<le> m) then (if neg then NegInf else PosInf)
              else let v = (if 0 \<le> p then of_int (m * 2 ^ nat p)
                            else Fract m (2 ^ nat (- p)))
                   in Fin (if neg then - v else v))"

subsection \<open>\<open>parseFloat\<close> and \<open>parseInt(_, 10)\<close>\<close>

text \<open>
  A raw field of a parsed CSV row is a string, or \<open>undefined\<close> (\<open>None\<close>) when the row
  has no such column. Both built-ins first convert their argument to a string, skip
  leading white space and then read the longest prefix that is a numeral; with no such
  prefix the result is NaN. A string is its UTF-8 bytes, so the white space and line
  terminators of ECMAScript (TAB, LF, VT, FF, CR, SP, U+00A0, U+1680, U+2000 to U+200A,
  U+2028, U+2029, U+202F, U+205F, U+3000, U+FEFF) are the byte sequences below.
\<close>

definition ToString :: "string option \<Rightarrow> string" where
  "ToString v = (case v of None \<Rightarrow> ''undefined'' | Some s \<Rightarrow> s)"

definition ws_sequences :: "string list" where
  "ws_sequences =
     [[CHR 0x09], [CHR 0x0A], [CHR 0x0B], [CHR 0x0C], [CHR 0x0D], [CHR 0x20],
      [CHR 0xC2, CHR 0xA0], [CHR 0xE1, CHR 0x9A, CHR 0x80], [CHR 0xE2, CHR 0x80, CHR 0x80],
      [CHR 0xE2, CHR 0x80, CHR 0x81], [CHR 0xE2, CHR 0x80, CHR 0x82],
      [CHR 0xE2, CHR 0x80, CHR 0x83], [CHR 0xE2, CHR 0x80, CHR 0x84],
      [CHR 0xE2, CHR 0x80, CHR 0x85], [CHR 0xE2, CHR 0x80, CHR 0x86],
      [CHR 0xE2, CHR 0x80, CHR 0x87], [CHR 0xE2, CHR 0x80, CHR 0x88],
      [CHR 0xE2, CHR 0x80, CHR 0x89], [CHR 0xE2, CHR 0x80, CHR 0x8A],
      [CHR 0xE2, CHR 0x80, CHR 0xA8], [CHR 0xE2, CHR 0x80, CHR 0xA9],
      [CHR 0xE2, CHR 0x80, CHR 0xAF], [CHR 0xE2, CHR 0x81, CHR 0x9F],
      [CHR 0xE3, CHR 0x80, CHR 0x80], [CHR 0xEF, CHR 0xBB, CHR 0xBF]]"

definition ws_length :: "string \<Rightarrow> nat" where
  \<comment> \<open>the number of bytes of the white-space character a string starts with, or 0\<close>
  "ws_length s =
     (case filter (\<lambda>w. take (length w) s = w) ws_sequences of
        [] \<Rightarrow> 0
      | w # ws \<Rightarrow> length w)"

fun trim_start :: "string \<Rightarrow> string" where
  "trim_start [] = []"
| "trim_start (c # cs) =
     (if ws_length (c # cs) = 0 then c # cs
      else trim_start (drop (ws_length (c # cs) - 1) cs))"

definition is_digit :: "char \<Rightarrow> bool" where
  "is_digit c = (c \<in> set ''0123456789'')"

definition digit_val :: "char \<Rightarrow> int" where
  "digit_val c = of_char c - 48"

definition digits_val :: "string \<Rightarrow> int" where
  "digits_val ds = foldl (\<lambda>a c. 10 * a + digit_val c) 0 ds"

definition strip_sign :: "string \<Rightarrow> bool \<times> string" where
  "strip_sign t =
     (case t of [] \<Rightarrow> (False, t)
      | c # cs \<Rightarrow> if c = CHR ''-'' then (True, cs) else if c = CHR ''+'' then (False, cs)
                  else (False, t))"

definition exponent_part :: "string \<Rightarrow> int" where
  "exponent_part r =
     (case r of [] \<Rightarrow> 0
      | c # cs \<Rightarrow>
          if c = CHR ''e'' \<or> c = CHR ''E''
          then (let (eneg, ds) = strip_sign cs; ed = takeWhile is_digit ds
                in if ed = [] then 0
                   else if eneg then - digits_val ed else digits_val ed)
          else 0)"

definition parseFloat :: "string option \<Rightarrow> jsnum" where
  "parseFloat v =
     (let (neg, u) = strip_sign (trim_start (ToString v))
      in if take 8 u = ''Infinity'' then (if neg then NegInf else PosInf)
         else let ip = takeWhile is_digit u;
                  r1 = dropWhile is_digit u;
                  (fp, r2) = (case r1 of [] \<Rightarrow> ([], r1)
                              | c # cs \<Rightarrow> if c = CHR ''.''
                                           then (takeWhile is_digit cs, dropWhile is_digit cs)
                                           else ([], r1));
                  ex = exponent_part r2 - int (length fp)
              in if ip = [] \<and> fp = [] then NaN
                 else if 0 \<le> ex then to_double neg (digits_val (ip @ fp) * 10 ^ nat ex) 1
                 else to_double neg (digits_val (ip @ fp)) (10 ^ nat (- ex)))"

definition parseInt10 :: "string option \<Rightarrow> jsnum" where
  "parseInt10 v =
     (let (neg, u) = strip_sign (trim_start (ToString v));
          ds = takeWhile is_digit u
      in if ds = [] then NaN else to_double neg (digits_val ds) 1)"

section \<open>Rows, features and collections\<close>

text \<open>
  Papa Parse with \<open>header: true\<close> delivers each row as an object from column names to
  strings. A feature's \<open>type\<close> and its geometry's \<open>type\<close> are the constants
  \<open>"Feature"\<close> and \<open>"Point"\<close>; what varies is the coordinate pair and the properties.
  A property can be present with the value \<open>undefined\<close>, which differs from a key
  that is not there.
\<close>

type_synonym row = "string \<rightharpoonup> string"

datatype jsval = JUndefined | JString string | JNumber jsnum

record GeoJSONFeature =
  coordinates :: "jsnum \<times> jsnum"
  properties :: "string \<rightharpoonup> jsval"

record GeoJSONFeatureCollection =
  features :: "GeoJSONFeature list"

definition field :: "row \<Rightarrow> string \<Rightarrow> jsval" where
  \<comment> \<open>\<open>row.k\<close> as a property value\<close>
  "field r k = (case r k of None \<Rightarrow> JUndefined | Some s \<Rightarrow> JString s)"

definition rest_of :: "string list \<Rightarrow> row \<Rightarrow> (string \<rightharpoonup> jsval)" where
  \<comment> \<open>\<open>const { k1, ..., kn, ...rest } = row\<close>: the row without the named columns\<close>
  "rest_of ks r = (\<lambda>k. if k \<in> set ks then None else map_option JString (r k))"

section \<open>The row callbacks of \<open>CSVReader.ts\<close>\<close>

text \<open>
  Each callback receives the feature array built so far and returns it, either unchanged
  (the callback returned early) or with one feature pushed at the end.
\<close>

definition readCompetitionsData_row :: "GeoJSONFeature list \<Rightarrow> row \<Rightarrow> GeoJSONFeature list" where
  "readCompetitionsData_row fs r =
     (if r ''longitude'' = Some '''' \<or> r ''latitude'' = Some '''' then fs
      else if r ''type'' = Some ''Storage'' \<or>
              r ''type'' = Some ''Self storage facility'' \<or>
              r ''type'' = Some ''Storage facility''
      then (let longitudeNum = parseFloat (r ''longitude'');
                latitudeNum = parseFloat (r ''latitude'')
            in if isNaN longitudeNum \<or> isNaN latitudeNum then fs
               else fs @ [\<lparr>coordinates = (longitudeNum, latitudeNum),
                           properties =
                             [''query'' \<mapsto> field r ''query'',
                              ''name'' \<mapsto> field r ''name'',
                              ''address'' \<mapsto> field r ''full_address'',
                              ''phone'' \<mapsto> field r ''phone'',
                              ''site'' \<mapsto> field r ''site'',
                              ''pointType'' \<mapsto> JString ''competitor'']
                             ++ rest_of [''longitude'', ''latitude''] r\<rparr>])
      else fs)"

definition readCommercialLandData_row :: "GeoJSONFeature list \<Rightarrow> row \<Rightarrow> GeoJSONFeature list" where
  "readCommercialLandData_row fs r =
     (let longitude = parseFloat (r ''longitude'');
          latitude = parseFloat (r ''latitude'')
      in if isNaN longitude \<or> isNaN latitude then fs
         else fs @ [\<lparr>coordinates = (latitude, longitude),
                     properties =
                       [''outcode'' \<mapsto> field r ''outcode'',
                        ''pageTitle'' \<mapsto> field r ''pageTitle'',
                        ''pricePerSqFt'' \<mapsto> field r ''pricePerSqFt'',
                        ''price_1'' \<mapsto> field r ''price_1'',
                        ''price_2'' \<mapsto> field r ''price_2'',
                        ''property'' \<mapsto> field r ''property'',
                        ''propertySubType'' \<mapsto> field r ''propertySubType'',
                        ''sector'' \<mapsto> field r ''sector'',
                        ''size'' \<mapsto> field r ''size'',
                        ''type'' \<mapsto> field r ''type'',
                        ''ukCountry'' \<mapsto> field r ''ukCountry'',
                        ''url'' \<mapsto> field r ''url'',
                        ''id'' \<mapsto> field r ''id'',
                        ''pointType'' \<mapsto> JString ''commercial'']\<rparr>])"

definition readPopulationData_row :: "GeoJSONFeature list \<Rightarrow> row \<Rightarrow> GeoJSONFeature list" where
  "readPopulationData_row fs r =
     (let longitude = parseFloat (r ''Longitude'');
          latitude = parseFloat (r ''Latitude'')
      in if isNaN longitude \<or> isNaN latitude then fs
         else fs @ [\<lparr>coordinates = (longitude, latitude),
                     properties =
                       [''pointType'' \<mapsto> JString ''population'']
                       ++ rest_of [''Latitude'', ''Longitude''] r\<rparr>])"

definition readTrafficData_row :: "GeoJSONFeature list \<Rightarrow> row \<Rightarrow> GeoJSONFeature list" where
  "readTrafficData_row fs r =
     (let longitude = parseFloat (r ''longitude'');
          latitude = parseFloat (r ''latitude'')
      in if isNaN longitude \<or> isNaN latitude then fs
         else fs @ [\<lparr>coordinates = (longitude, latitude),
                     properties =
                       [''pointType'' \<mapsto> JString ''traffic'',
                        ''year'' \<mapsto> JNumber (parseInt10 (r ''year'')),
                        ''all_motor_vehicles'' \<mapsto>
                          JNumber (or_zero (parseInt10 (r ''all_motor_vehicles'')))]\<rparr>])"

definition loadVisiblePopulation_row ::
  "jsnum \<Rightarrow> jsnum \<Rightarrow> jsnum \<Rightarrow> jsnum \<Rightarrow> GeoJSONFeature list \<Rightarrow> row \<Rightarrow> GeoJSONFeature list" where
  "loadVisiblePopulation_row minLng minLat maxLng maxLat fs r =
     (let lat = parseFloat (r ''Latitude'');
          lng = parseFloat (r ''Longitude'')
      in if isNaN lat \<or> isNaN lng \<or> js_lt lng minLng \<or> js_gt lng maxLng \<or>
            js_lt lat minLat \<or> js_gt lat maxLat
         then fs
         else fs @ [\<lparr>coordinates = (lng, lat),
                     properties =
                       (rest_of [''Latitude'', ''Longitude'', ''BUA_Population''] r)
                         (''BUA_Population'' \<mapsto>
                            JNumber (or_zero (parseInt10 (r ''BUA_Population''))))\<rparr>])"

section \<open>The loaders\<close>

text \<open>
  The outside world is two parameters. \<open>fetch\<close> maps a URL to a rejected promise
  (\<open>Inl\<close>) or to a response, whose body reads as text or as JSON, each of which can
  reject in turn. \<open>papa\<close> is Papa Parse on a string with \<open>header: true\<close> and
  \<open>skipEmptyLines: true\<close>: it hands every row to the \<open>step\<close> callback (or collects
  them for \<open>complete\<close>) and then completes; for string input it does not call the
  \<open>error\<close> callback, and no row callback of this file throws.
  A loader returns the settled value of its promise: \<open>Inl\<close> when rejected.
\<close>

datatype js_error = JsError string

record response =
  response_ok :: bool
  response_status :: nat
  response_statusText :: string
  response_text :: "js_error + string"
  response_json :: "js_error + GeoJSONFeature list"

type_synonym fetch_fn = "string \<Rightarrow> js_error + response"
type_synonym papa_fn = "string \<Rightarrow> row list"

definition fetch_text :: "fetch_fn \<Rightarrow> string \<Rightarrow> js_error + string" where
  \<comment> \<open>\<open>fetch(url).then((response) => response.text())\<close>\<close>
  "fetch_text fetch url =
     (case fetch url of Inl e \<Rightarrow> Inl e | Inr response \<Rightarrow> response_text response)"

definition readCompetitionsData :: "fetch_fn \<Rightarrow> papa_fn \<Rightarrow> js_error + GeoJSONFeatureCollection" where
  "readCompetitionsData fetch papa =
     (case fetch_text fetch ''/competition_data.csv'' of
        Inl e \<Rightarrow> Inl e
      | Inr csvText \<Rightarrow> Inr \<lparr>features = foldl readCompetitionsData_row [] (papa csvText)\<rparr>)"

definition readCommercialLandData :: "fetch_fn \<Rightarrow> papa_fn \<Rightarrow> js_error + GeoJSONFeatureCollection" where
  "readCommercialLandData fetch papa =
     (case fetch_text fetch ''/commercial_land.csv'' of
        Inl e \<Rightarrow> Inl e
      | Inr csvText \<Rightarrow> Inr \<lparr>features = foldl readCommercialLandData_row [] (papa csvText)\<rparr>)"

definition readPopulationData :: "fetch_fn \<Rightarrow> papa_fn \<Rightarrow> js_error + GeoJSONFeatureCollection" where
  "readPopulationData fetch papa =
     (case fetch_text fetch ''/postcode_to_bua_mapped.csv'' of
        Inl e \<Rightarrow> Inl e
      | Inr csvText \<Rightarrow> Inr \<lparr>features = foldl readPopulationData_row [] (papa csvText)\<rparr>)"

definition readTrafficData :: "fetch_fn \<Rightarrow> papa_fn \<Rightarrow> js_error + GeoJSONFeatureCollection" where
  "readTrafficData fetch papa =
     (case fetch_text fetch ''/traffic_data.csv'' of
        Inl e \<Rightarrow> Inl e
      | Inr csvText \<Rightarrow> Inr \<lparr>features = foldl readTrafficData_row [] (papa csvText)\<rparr>)"

subsection \<open>The windowed loader over CSV chunks\<close>

definition totalChunks :: nat where
  "totalChunks = 18"

fun show_nat :: "nat \<Rightarrow> string" where
  "show_nat n =
     (if n < 10 then [char_of (48 + n)]
      else show_nat (n div 10) @ [char_of (48 + n mod 10)])"

definition chunk_csv_url :: "nat \<Rightarrow> string" where
  "chunk_csv_url i = ''/chunks/chunk_'' @ show_nat i @ ''.csv''"

definition loadVisiblePopulation_try ::
  "fetch_fn \<Rightarrow> papa_fn \<Rightarrow> jsnum \<Rightarrow> jsnum \<Rightarrow> jsnum \<Rightarrow> jsnum \<Rightarrow> nat \<Rightarrow>
   GeoJSONFeature list \<Rightarrow> js_error + GeoJSONFeature list" where
  \<comment> \<open>the body of the \<open>try\<close> block for chunk \<open>i\<close>\<close>
  "loadVisiblePopulation_try fetch papa minLng minLat maxLng maxLat i fs =
     (case fetch (chunk_csv_url i) of
        Inl e \<Rightarrow> Inl e
      | Inr response \<Rightarrow>
          (case response_text response of
             Inl e \<Rightarrow> Inl e
           | Inr txt \<Rightarrow>
               Inr (foldl (loadVisiblePopulation_row minLng minLat maxLng maxLat) fs (papa txt))))"

function loadVisiblePopulation_loop ::
  "fetch_fn \<Rightarrow> papa_fn \<Rightarrow> jsnum \<Rightarrow> jsnum \<Rightarrow> jsnum \<Rightarrow> jsnum \<Rightarrow> nat \<Rightarrow>
   GeoJSONFeature list \<Rightarrow> GeoJSONFeature list" where
  "loadVisiblePopulation_loop fetch papa minLng minLat maxLng maxLat i fs =
     (if i \<le> totalChunks
      then loadVisiblePopulation_loop fetch papa minLng minLat maxLng maxLat (Suc i)
             (case loadVisiblePopulation_try fetch papa minLng minLat maxLng maxLat i fs of
                Inl e \<Rightarrow> fs
              | Inr fs' \<Rightarrow> fs')
      else fs)"
  by pat_completeness auto
termination
  by (relation "measure (\<lambda>(fetch, papa, minLng, minLat, maxLng, maxLat, i, fs). Suc totalChunks - i)")
     auto

definition loadVisiblePopulation ::
  "fetch_fn \<Rightarrow> papa_fn \<Rightarrow> jsnum \<Rightarrow> jsnum \<Rightarrow> jsnum \<Rightarrow> jsnum \<Rightarrow>
   js_error + GeoJSONFeatureCollection" where
  "loadVisiblePopulation fetch papa minLng minLat maxLng maxLat =
     Inr \<lparr>features = loadVisiblePopulation_loop fetch papa minLng minLat maxLng maxLat 1 []\<rparr>"

subsection \<open>The windowed loader over pre-processed GeoJSON chunks\<close>

text \<open>
  The later revision of the reader fetches \<open>/chunks/chunk_i.geojson\<close>, already converted,
  and filters the features of each chunk by the bounds. \<open>response_json\<close> is the decoded
  body at the type the reader declares for it, the features of a collection; a body that
  does not decode, or that decodes to something the filter cannot walk (the exception is
  raised inside the same \<open>try\<close>), is a rejection.
\<close>

definition fetchGeoJSON :: "fetch_fn \<Rightarrow> string \<Rightarrow> js_error + GeoJSONFeature list" where
  "fetchGeoJSON fetch url =
     (case fetch url of
        Inl e \<Rightarrow> Inl e
      | Inr response \<Rightarrow>
          if \<not> response_ok response
          then (case response_text response of
                  Inl e \<Rightarrow> Inl e
                | Inr errorText \<Rightarrow>
                    Inl (JsError (''Failed to fetch '' @ url @ '': '' @
                           show_nat (response_status response) @ '' '' @
                           response_statusText response @ ''. '' @ errorText)))
          else response_json response)"

definition chunk_geojson_url :: "nat \<Rightarrow> string" where
  "chunk_geojson_url i = ''/chunks/chunk_'' @ show_nat i @ ''.geojson''"

definition visible :: "jsnum \<Rightarrow> jsnum \<Rightarrow> jsnum \<Rightarrow> jsnum \<Rightarrow> GeoJSONFeature \<Rightarrow> bool" where
  \<comment> \<open>the predicate handed to \<open>filter\<close>\<close>
  "visible minLng minLat maxLng maxLat feature =
     (let (lng, lat) = coordinates feature
      in js_ge lng minLng \<and> js_le lng maxLng \<and> js_ge lat minLat \<and> js_le lat maxLat)"

definition loadVisiblePopulation_geojson_try ::
  "fetch_fn \<Rightarrow> jsnum \<Rightarrow> jsnum \<Rightarrow> jsnum \<Rightarrow> jsnum \<Rightarrow> nat \<Rightarrow>
   GeoJSONFeature list \<Rightarrow> js_error + GeoJSONFeature list" where
  "loadVisiblePopulation_geojson_try fetch minLng minLat maxLng maxLat i allFeatures =
     (case fetchGeoJSON fetch (chunk_geojson_url i) of
        Inl e \<Rightarrow> Inl e
      | Inr chunkFeatures \<Rightarrow>
          Inr (allFeatures @ filter (visible minLng minLat maxLng maxLat) chunkFeatures))"

function loadVisiblePopulation_geojson_loop ::
  "fetch_fn \<Rightarrow> jsnum \<Rightarrow> jsnum \<Rightarrow> jsnum \<Rightarrow> jsnum \<Rightarrow> nat \<Rightarrow>
   GeoJSONFeature list \<Rightarrow> GeoJSONFeature list" where
  "loadVisiblePopulation_geojson_loop fetch minLng minLat maxLng maxLat i allFeatures =
     (if i \<le> totalChunks
      then loadVisiblePopulation_geojson_loop fetch minLng minLat maxLng maxLat (Suc i)
             (case loadVisiblePopulation_geojson_try fetch minLng minLat maxLng maxLat i allFeatures of
                Inl e \<Rightarrow> allFeatures
              | Inr fs' \<Rightarrow> fs')
      else allFeatures)"
  by pat_completeness auto
termination
  by (relation "measure (\<lambda>(fetch, minLng, minLat, maxLng, maxLat, i, fs). Suc totalChunks - i)")
     auto

definition loadVisiblePopulation_geojson ::
  "fetch_fn \<Rightarrow> jsnum \<Rightarrow> jsnum \<Rightarrow> jsnum \<Rightarrow> jsnum \<Rightarrow> js_error + GeoJSONFeatureCollection" where
  "loadVisiblePopulation_geojson fetch minLng minLat maxLng maxLat =
     Inr \<lparr>features = loadVisiblePopulation_geojson_loop fetch minLng minLat maxLng maxLat 1 []\<rparr>"

section \<open>Reference definitions, in the specification's words\<close>

text \<open>
  These three follow the specification (Feature Collection Builder, Chunked Loader), not
  the source, and are what the loaders are compared with: the survivors of a sequence
  of rows are the features of the rows that a callback does not drop, in the order of
  the rows; the records of a shard are its survivors, and nothing when the shard cannot
  be read.
\<close>

definition survivors ::
  "(GeoJSONFeature list \<Rightarrow> row \<Rightarrow> GeoJSONFeature list) \<Rightarrow> row list \<Rightarrow> GeoJSONFeature list" where
  "survivors step rows = map (\<lambda>r. hd (step [] r)) (filter (\<lambda>r. step [] r \<noteq> []) rows)"

definition csv_shard_records ::
  "fetch_fn \<Rightarrow> papa_fn \<Rightarrow> jsnum \<Rightarrow> jsnum \<Rightarrow> jsnum \<Rightarrow> jsnum \<Rightarrow> nat \<Rightarrow> GeoJSONFeature list" where
  "csv_shard_records fetch papa minLng minLat maxLng maxLat i =
     (case fetch_text fetch (chunk_csv_url i) of
        Inl e \<Rightarrow> []
      | Inr txt \<Rightarrow> survivors (loadVisiblePopulation_row minLng minLat maxLng maxLat) (papa txt))"

definition geojson_shard_records ::
  "fetch_fn \<Rightarrow> jsnum \<Rightarrow> jsnum \<Rightarrow> jsnum \<Rightarrow> jsnum \<Rightarrow> nat \<Rightarrow> GeoJSONFeature list" where
  "geojson_shard_records fetch minLng minLat maxLng maxLat i =
     (case fetchGeoJSON fetch (chunk_geojson_url i) of
        Inl e \<Rightarrow> []
      | Inr chunkFeatures \<Rightarrow> filter (visible minLng minLat maxLng maxLat) chunkFeatures)"

section \<open>Sample inputs\<close>

definition sample_row :: row where
  "sample_row =
     [''longitude'' \<mapsto> ''10'', ''latitude'' \<mapsto> ''20'',
      ''Longitude'' \<mapsto> ''10'', ''Latitude'' \<mapsto> ''20'',
      ''type'' \<mapsto> ''Storage'']"

definition sample_response :: "string \<Rightarrow> response" where
  "sample_response body =
     \<lparr>response_ok = True, response_status = 200, response_statusText = ''OK'',
      response_text = Inr body, response_json = Inl (JsError ''not JSON'')\<rparr>"

definition sample_fetch :: fetch_fn where
  \<comment> \<open>every whole file and chunk 1 can be read; every other URL rejects\<close>
  "sample_fetch url =
     (if url \<in> set [''/competition_data.csv'', ''/commercial_land.csv'',
                     ''/postcode_to_bua_mapped.csv'', ''/traffic_data.csv'',
                     ''/chunks/chunk_1.csv'']
      then Inr (sample_response ''rows'')
      else Inl (JsError ''Failed to fetch''))"

definition offline_fetch :: fetch_fn where
  "offline_fetch url = Inl (JsError ''Failed to fetch'')"

definition sample_papa :: papa_fn where
  "sample_papa txt =
     [sample_row, Map.empty, sample_row(''longitude'' \<mapsto> ''20'', ''Longitude'' \<mapsto> ''20'')]"

definition missing_fetch :: fetch_fn where
  \<comment> \<open>a server that answers every request with 404\<close>
  "missing_fetch url =
     Inr \<lparr>response_ok = False, response_status = 404, response_statusText = ''Not Found'',
          response_text = Inr ''no such file'', response_json = Inl (JsError ''not JSON'')\<rparr>"

definition override_row :: row where
  \<comment> \<open>a competitor row with raw columns named like normalized properties\<close>
  "override_row =
     sample_row(''address'' \<mapsto> ''Unit 4'', ''full_address'' \<mapsto> ''1 High St'',
       ''pointType'' \<mapsto> ''depot'')"

section \<open>Values of the built-ins at the inputs used below\<close>

lemma parseFloat_10: "parseFloat (Some ''10'') = Fin 10"
  by code_simp

lemma parseFloat_20: "parseFloat (Some ''20'') = Fin 20"
  by code_simp

lemma parseFloat_empty: "parseFloat (Some '''') = NaN"
  by code_simp

lemma parseFloat_undefined: "parseFloat None = NaN"
  by code_simp

section \<open>Coordinate order\<close>

text \<open>
  C1. A commercial row that passes the coordinate check is emitted with the pair
  (latitude, longitude); a competitor, traffic or population row (whole file or chunk)
  with the pair (longitude, latitude). With raw longitude 10 and latitude 20 the
  commercial pair is (20, 10) and every other pair is (10, 20).
\<close>

theorem coordinate_order_per_dataset:
  "(readCommercialLandData_row fs r = fs @ [f] \<longrightarrow>
      coordinates f = (parseFloat (r ''latitude''), parseFloat (r ''longitude'')) \<and>
      (r ''longitude'' = Some ''10'' \<and> r ''latitude'' = Some ''20'' \<longrightarrow>
         coordinates f = (Fin 20, Fin 10))) \<and>
   (readCompetitionsData_row fs r = fs @ [f] \<longrightarrow>
      coordinates f = (parseFloat (r ''longitude''), parseFloat (r ''latitude'')) \<and>
      (r ''longitude'' = Some ''10'' \<and> r ''latitude'' = Some ''20'' \<longrightarrow>
         coordinates f = (Fin 10, Fin 20))) \<and>
   (readTrafficData_row fs r = fs @ [f] \<longrightarrow>
      coordinates f = (parseFloat (r ''longitude''), parseFloat (r ''latitude'')) \<and>
      (r ''longitude'' = Some ''10'' \<and> r ''latitude'' = Some ''20'' \<longrightarrow>
         coordinates f = (Fin 10, Fin 20))) \<and>
   (readPopulationData_row fs r = fs @ [f] \<longrightarrow>
      coordinates f = (parseFloat (r ''Longitude''), parseFloat (r ''Latitude'')) \<and>
      (r ''Longitude'' = Some ''10'' \<and> r ''Latitude'' = Some ''20'' \<longrightarrow>
         coordinates f = (Fin 10, Fin 20))) \<and>
   (loadVisiblePopulation_row minLng minLat maxLng maxLat fs r = fs @ [f] \<longrightarrow>
      coordinates f = (parseFloat (r ''Longitude''), parseFloat (r ''Latitude'')) \<and>
      (r ''Longitude'' = Some ''10'' \<and> r ''Latitude'' = Some ''20'' \<longrightarrow>
         coordinates f = (Fin 10, Fin 20)))"
proof (intro conjI impI)
  assume "readCommercialLandData_row fs r = fs @ [f]"
  then show c: "coordinates f = (parseFloat (r ''latitude''), parseFloat (r ''longitude''))"
    by (auto simp: readCommercialLandData_row_def Let_def split: if_splits)
  assume "r ''longitude'' = Some ''10'' \<and> r ''latitude'' = Some ''20''"
  with c show "coordinates f = (Fin 20, Fin 10)"
    by (simp add: parseFloat_10 parseFloat_20)
next
  assume "readCompetitionsData_row fs r = fs @ [f]"
  then show c: "coordinates f = (parseFloat (r ''longitude''), parseFloat (r ''latitude''))"
    by (auto simp: readCompetitionsData_row_def Let_def split: if_splits)
  assume "r ''longitude'' = Some ''10'' \<and> r ''latitude'' = Some ''20''"
  with c show "coordinates f = (Fin 10, Fin 20)"
    by (simp add: parseFloat_10 parseFloat_20)
next
  assume "readTrafficData_row fs r = fs @ [f]"
  then show c: "coordinates f = (parseFloat (r ''longitude''), parseFloat (r ''latitude''))"
    by (auto simp: readTrafficData_row_def Let_def split: if_splits)
  assume "r ''longitude'' = Some ''10'' \<and> r ''latitude'' = Some ''20''"
  with c show "coordinates f = (Fin 10, Fin 20)"
    by (simp add: parseFloat_10 parseFloat_20)
next
  assume "readPopulationData_row fs r = fs @ [f]"
  then show c: "coordinates f = (parseFloat (r ''Longitude''), parseFloat (r ''Latitude''))"
    by (auto simp: readPopulationData_row_def Let_def split: if_splits)
  assume "r ''Longitude'' = Some ''10'' \<and> r ''Latitude'' = Some ''20''"
  with c show "coordinates f = (Fin 10, Fin 20)"
    by (simp add: parseFloat_10 parseFloat_20)
next
  assume "loadVisiblePopulation_row minLng minLat maxLng maxLat fs r = fs @ [f]"
  then show c: "coordinates f = (parseFloat (r ''Longitude''), parseFloat (r ''Latitude''))"
    by (auto simp: loadVisiblePopulation_row_def Let_def split: if_splits)
  assume "r ''Longitude'' = Some ''10'' \<and> r ''Latitude'' = Some ''20''"
  with c show "coordinates f = (Fin 10, Fin 20)"
    by (simp add: parseFloat_10 parseFloat_20)
qed

theorem coordinate_order_per_dataset_witness:
  "readCommercialLandData_row [] sample_row = [] @ [hd (readCommercialLandData_row [] sample_row)] \<and>
   coordinates (hd (readCommercialLandData_row [] sample_row)) = (Fin 20, Fin 10) \<and>
   readCompetitionsData_row [] sample_row = [] @ [hd (readCompetitionsData_row [] sample_row)] \<and>
   coordinates (hd (readCompetitionsData_row [] sample_row)) = (Fin 10, Fin 20) \<and>
   readTrafficData_row [] sample_row = [] @ [hd (readTrafficData_row [] sample_row)] \<and>
   coordinates (hd (readTrafficData_row [] sample_row)) = (Fin 10, Fin 20) \<and>
   readPopulationData_row [] sample_row = [] @ [hd (readPopulationData_row [] sample_row)] \<and>
   coordinates (hd (readPopulationData_row [] sample_row)) = (Fin 10, Fin 20) \<and>
   loadVisiblePopulation_row (Fin 0) (Fin 0) (Fin 50) (Fin 50) [] sample_row =
     [] @ [hd (loadVisiblePopulation_row (Fin 0) (Fin 0) (Fin 50) (Fin 50) [] sample_row)] \<and>
   coordinates (hd (loadVisiblePopulation_row (Fin 0) (Fin 0) (Fin 50) (Fin 50) [] sample_row)) =
     (Fin 10, Fin 20)"
proof -
  have r: "sample_row ''longitude'' = Some ''10''" "sample_row ''latitude'' = Some ''20''"
    "sample_row ''Longitude'' = Some ''10''" "sample_row ''Latitude'' = Some ''20''"
    "sample_row ''type'' = Some ''Storage''"
    by (simp_all add: sample_row_def)
  have 1: "readCommercialLandData_row [] sample_row =
           [] @ [hd (readCommercialLandData_row [] sample_row)]"
    by (simp add: readCommercialLandData_row_def r parseFloat_10 parseFloat_20 isNaN_def)
  have 2: "readCompetitionsData_row [] sample_row =
           [] @ [hd (readCompetitionsData_row [] sample_row)]"
    by (simp add: readCompetitionsData_row_def r parseFloat_10 parseFloat_20 isNaN_def)
  have 3: "readTrafficData_row [] sample_row = [] @ [hd (readTrafficData_row [] sample_row)]"
    by (simp add: readTrafficData_row_def r parseFloat_10 parseFloat_20 isNaN_def)
  have 4: "readPopulationData_row [] sample_row =
           [] @ [hd (readPopulationData_row [] sample_row)]"
    by (simp add: readPopulationData_row_def r parseFloat_10 parseFloat_20 isNaN_def)
  have 5: "loadVisiblePopulation_row (Fin 0) (Fin 0) (Fin 50) (Fin 50) [] sample_row =
           [] @ [hd (loadVisiblePopulation_row (Fin 0) (Fin 0) (Fin 50) (Fin 50) [] sample_row)]"
    by (simp add: loadVisiblePopulation_row_def r parseFloat_10 parseFloat_20 isNaN_def js_gt_def)
  note T = coordinate_order_per_dataset [where fs = "[]" and r = sample_row
      and minLng = "Fin 0" and minLat = "Fin 0" and maxLng = "Fin 50" and maxLat = "Fin 50"]
  have c1: "coordinates (hd (readCommercialLandData_row [] sample_row)) = (Fin 20, Fin 10)"
    using T [where f = "hd (readCommercialLandData_row [] sample_row)", THEN conjunct1] 1 r
    by blast
  have c2: "coordinates (hd (readCompetitionsData_row [] sample_row)) = (Fin 10, Fin 20)"
    using T [where f = "hd (readCompetitionsData_row [] sample_row)",
        THEN conjunct2, THEN conjunct1] 2 r
    by blast
  have c3: "coordinates (hd (readTrafficData_row [] sample_row)) = (Fin 10, Fin 20)"
    using T [where f = "hd (readTrafficData_row [] sample_row)",
        THEN conjunct2, THEN conjunct2, THEN conjunct1] 3 r
    by blast
  have c4: "coordinates (hd (readPopulationData_row [] sample_row)) = (Fin 10, Fin 20)"
    using T [where f = "hd (readPopulationData_row [] sample_row)",
        THEN conjunct2, THEN conjunct2, THEN conjunct2, THEN conjunct1] 4 r
    by blast
  have c5: "coordinates (hd (loadVisiblePopulation_row (Fin 0) (Fin 0) (Fin 50) (Fin 50) []
              sample_row)) = (Fin 10, Fin 20)"
    using T [where f = "hd (loadVisiblePopulation_row (Fin 0) (Fin 0) (Fin 50) (Fin 50) []
              sample_row)",
        THEN conjunct2, THEN conjunct2, THEN conjunct2, THEN conjunct2] 5 r
    by blast
  from 1 2 3 4 5 c1 c2 c3 c4 c5 show ?thesis
    by (intro conjI)
qed

section \<open>The loaders as folds\<close>

declare loadVisiblePopulation_loop.simps [simp del]
declare loadVisiblePopulation_geojson_loop.simps [simp del]
declare show_nat.simps [simp del]
declare trim_start.simps [simp del]

lemma foldl_push:
  assumes "\<And>fs r. step fs r = fs @ step [] r"
  shows "foldl step fs rows = fs @ concat (map (step []) rows)"
proof (induction rows arbitrary: fs)
  case Nil
  show ?case by simp
next
  case (Cons r rows)
  have "foldl step fs (r # rows) = foldl step (step fs r) rows"
    by simp
  also have "\<dots> = step fs r @ concat (map (step []) rows)"
    by (rule Cons.IH)
  also have "\<dots> = fs @ concat (map (step []) (r # rows))"
    using assms [of fs r] by simp
  finally show ?case .
qed

lemma concat_survivors:
  assumes "\<And>r. length (step [] r) \<le> 1"
  shows "concat (map (step []) rows) = survivors step rows"
proof (induction rows)
  case Nil
  show ?case by (simp add: survivors_def)
next
  case (Cons r rows)
  show ?case
  proof (cases "step [] r")
    case Nil
    with Cons show ?thesis by (simp add: survivors_def)
  next
    case (Cons f fs')
    with assms [of r] have "fs' = []" by simp
    with Cons Cons.IH show ?thesis by (simp add: survivors_def)
  qed
qed

lemma readCompetitionsData_row_append:
  "readCompetitionsData_row fs r = fs @ readCompetitionsData_row [] r"
  by (simp add: readCompetitionsData_row_def Let_def)

lemma readCommercialLandData_row_append:
  "readCommercialLandData_row fs r = fs @ readCommercialLandData_row [] r"
  by (simp add: readCommercialLandData_row_def Let_def)

lemma readPopulationData_row_append:
  "readPopulationData_row fs r = fs @ readPopulationData_row [] r"
  by (simp add: readPopulationData_row_def Let_def)

lemma readTrafficData_row_append:
  "readTrafficData_row fs r = fs @ readTrafficData_row [] r"
  by (simp add: readTrafficData_row_def Let_def)

lemma loadVisiblePopulation_row_append:
  "loadVisiblePopulation_row a b c d fs r = fs @ loadVisiblePopulation_row a b c d [] r"
  by (simp add: loadVisiblePopulation_row_def Let_def)

lemma readCompetitionsData_row_length: "length (readCompetitionsData_row [] r) \<le> 1"
  by (simp add: readCompetitionsData_row_def Let_def)

lemma readCommercialLandData_row_length: "length (readCommercialLandData_row [] r) \<le> 1"
  by (simp add: readCommercialLandData_row_def Let_def)

lemma readPopulationData_row_length: "length (readPopulationData_row [] r) \<le> 1"
  by (simp add: readPopulationData_row_def Let_def)

lemma readTrafficData_row_length: "length (readTrafficData_row [] r) \<le> 1"
  by (simp add: readTrafficData_row_def Let_def)

lemma loadVisiblePopulation_row_length: "length (loadVisiblePopulation_row a b c d [] r) \<le> 1"
  by (simp add: loadVisiblePopulation_row_def Let_def)

lemma foldl_survivors:
  assumes "\<And>fs r. step fs r = fs @ step [] r" and "\<And>r. length (step [] r) \<le> 1"
  shows "foldl step fs rows = fs @ survivors step rows"
  using foldl_push [of step fs rows, OF assms(1)] concat_survivors [of step rows, OF assms(2)]
  by simp

lemma csv_try_catch:
  "(case loadVisiblePopulation_try fetch papa a b c d i fs of Inl e \<Rightarrow> fs | Inr fs' \<Rightarrow> fs') =
   fs @ csv_shard_records fetch papa a b c d i"
  by (simp add: loadVisiblePopulation_try_def csv_shard_records_def fetch_text_def
      foldl_survivors [OF loadVisiblePopulation_row_append loadVisiblePopulation_row_length]
      split: sum.splits)

lemma geojson_try_catch:
  "(case loadVisiblePopulation_geojson_try fetch a b c d i fs of Inl e \<Rightarrow> fs | Inr fs' \<Rightarrow> fs') =
   fs @ geojson_shard_records fetch a b c d i"
  by (simp add: loadVisiblePopulation_geojson_try_def geojson_shard_records_def
      split: sum.splits)

lemma csv_loop:
  "i \<le> Suc totalChunks \<Longrightarrow>
   loadVisiblePopulation_loop fetch papa a b c d i fs =
   fs @ concat (map (csv_shard_records fetch papa a b c d) [i..<Suc totalChunks])"
proof (induction fetch papa a b c d i fs rule: loadVisiblePopulation_loop.induct)
  case (1 fetch papa a b c d i fs)
  show ?case
  proof (cases "i \<le> totalChunks")
    case True
    have "loadVisiblePopulation_loop fetch papa a b c d i fs =
          loadVisiblePopulation_loop fetch papa a b c d (Suc i)
            (fs @ csv_shard_records fetch papa a b c d i)"
      using True by (subst loadVisiblePopulation_loop.simps) (simp add: csv_try_catch)
    also have "\<dots> = (fs @ csv_shard_records fetch papa a b c d i) @
          concat (map (csv_shard_records fetch papa a b c d) [Suc i..<Suc totalChunks])"
      using "1.IH" [OF True] True by (simp add: csv_try_catch)
    also have "\<dots> = fs @ concat (map (csv_shard_records fetch papa a b c d) [i..<Suc totalChunks])"
    proof -
      have "[i..<Suc totalChunks] = i # [Suc i..<Suc totalChunks]"
        using True by (subst upt_rec) simp
      then show ?thesis by (simp del: upt_Suc)
    qed
    finally show ?thesis .
  next
    case False
    with "1.prems" have "i = Suc totalChunks" by simp
    then show ?thesis
      by (subst loadVisiblePopulation_loop.simps) simp
  qed
qed

lemma geojson_loop:
  "i \<le> Suc totalChunks \<Longrightarrow>
   loadVisiblePopulation_geojson_loop fetch a b c d i fs =
   fs @ concat (map (geojson_shard_records fetch a b c d) [i..<Suc totalChunks])"
proof (induction fetch a b c d i fs rule: loadVisiblePopulation_geojson_loop.induct)
  case (1 fetch a b c d i fs)
  show ?case
  proof (cases "i \<le> totalChunks")
    case True
    have "loadVisiblePopulation_geojson_loop fetch a b c d i fs =
          loadVisiblePopulation_geojson_loop fetch a b c d (Suc i)
            (fs @ geojson_shard_records fetch a b c d i)"
      using True by (subst loadVisiblePopulation_geojson_loop.simps) (simp add: geojson_try_catch)
    also have "\<dots> = (fs @ geojson_shard_records fetch a b c d i) @
          concat (map (geojson_shard_records fetch a b c d) [Suc i..<Suc totalChunks])"
      using "1.IH" [OF True] True by (simp add: geojson_try_catch)
    also have "\<dots> = fs @ concat (map (geojson_shard_records fetch a b c d) [i..<Suc totalChunks])"
    proof -
      have "[i..<Suc totalChunks] = i # [Suc i..<Suc totalChunks]"
        using True by (subst upt_rec) simp
      then show ?thesis by (simp del: upt_Suc)
    qed
    finally show ?thesis .
  next
    case False
    with "1.prems" have "i = Suc totalChunks" by simp
    then show ?thesis
      by (subst loadVisiblePopulation_geojson_loop.simps) simp
  qed
qed

lemma loadVisiblePopulation_merged:
  "loadVisiblePopulation fetch papa a b c d =
   Inr \<lparr>features = concat (map (csv_shard_records fetch papa a b c d) [1..<Suc totalChunks])\<rparr>"
  by (simp add: loadVisiblePopulation_def csv_loop totalChunks_def)

lemma loadVisiblePopulation_geojson_merged:
  "loadVisiblePopulation_geojson fetch a b c d =
   Inr \<lparr>features = concat (map (geojson_shard_records fetch a b c d) [1..<Suc totalChunks])\<rparr>"
  by (simp add: loadVisiblePopulation_geojson_def geojson_loop totalChunks_def)

lemma concat_skip:
  "g k = [] \<Longrightarrow> concat (map g (filter (\<lambda>i. i \<noteq> k) xs)) = concat (map g xs)"
  by (induction xs) auto

section \<open>Order of the output\<close>

text \<open>
  C7. A whole-file load that can read its file returns exactly the survivors of the parsed
  rows, in the order of the rows. The windowed load returns the records of shard 1, then
  those of shard 2, and so on up to shard \<open>totalChunks\<close>, each shard's records in the
  order of its rows (CSV chunks) or of its features (GeoJSON chunks).
\<close>

theorem order_preservation:
  "(fetch_text fetch ''/competition_data.csv'' = Inr csvText \<longrightarrow>
      readCompetitionsData fetch papa =
        Inr \<lparr>features = survivors readCompetitionsData_row (papa csvText)\<rparr>) \<and>
   (fetch_text fetch ''/commercial_land.csv'' = Inr csvText \<longrightarrow>
      readCommercialLandData fetch papa =
        Inr \<lparr>features = survivors readCommercialLandData_row (papa csvText)\<rparr>) \<and>
   (fetch_text fetch ''/postcode_to_bua_mapped.csv'' = Inr csvText \<longrightarrow>
      readPopulationData fetch papa =
        Inr \<lparr>features = survivors readPopulationData_row (papa csvText)\<rparr>) \<and>
   (fetch_text fetch ''/traffic_data.csv'' = Inr csvText \<longrightarrow>
      readTrafficData fetch papa =
        Inr \<lparr>features = survivors readTrafficData_row (papa csvText)\<rparr>) \<and>
   loadVisiblePopulation fetch papa minLng minLat maxLng maxLat =
     Inr \<lparr>features = concat (map (csv_shard_records fetch papa minLng minLat maxLng maxLat)
                             [1..<Suc totalChunks])\<rparr> \<and>
   loadVisiblePopulation_geojson fetch minLng minLat maxLng maxLat =
     Inr \<lparr>features = concat (map (geojson_shard_records fetch minLng minLat maxLng maxLat)
                             [1..<Suc totalChunks])\<rparr>"
proof (intro conjI impI)
  assume "fetch_text fetch ''/competition_data.csv'' = Inr csvText"
  then show "readCompetitionsData fetch papa =
      Inr \<lparr>features = survivors readCompetitionsData_row (papa csvText)\<rparr>"
    using foldl_survivors [of readCompetitionsData_row "[]" "papa csvText",
        OF readCompetitionsData_row_append readCompetitionsData_row_length]
    by (simp add: readCompetitionsData_def)
next
  assume "fetch_text fetch ''/commercial_land.csv'' = Inr csvText"
  then show "readCommercialLandData fetch papa =
      Inr \<lparr>features = survivors readCommercialLandData_row (papa csvText)\<rparr>"
    using foldl_survivors [of readCommercialLandData_row "[]" "papa csvText",
        OF readCommercialLandData_row_append readCommercialLandData_row_length]
    by (simp add: readCommercialLandData_def)
next
  assume "fetch_text fetch ''/postcode_to_bua_mapped.csv'' = Inr csvText"
  then show "readPopulationData fetch papa =
      Inr \<lparr>features = survivors readPopulationData_row (papa csvText)\<rparr>"
    using foldl_survivors [of readPopulationData_row "[]" "papa csvText",
        OF readPopulationData_row_append readPopulationData_row_length]
    by (simp add: readPopulationData_def)
next
  assume "fetch_text fetch ''/traffic_data.csv'' = Inr csvText"
  then show "readTrafficData fetch papa =
      Inr \<lparr>features = survivors readTrafficData_row (papa csvText)\<rparr>"
    using foldl_survivors [of readTrafficData_row "[]" "papa csvText",
        OF readTrafficData_row_append readTrafficData_row_length]
    by (simp add: readTrafficData_def)
next
  show "loadVisiblePopulation fetch papa minLng minLat maxLng maxLat =
     Inr \<lparr>features = concat (map (csv_shard_records fetch papa minLng minLat maxLng maxLat)
                             [1..<Suc totalChunks])\<rparr>"
    by (rule loadVisiblePopulation_merged)
next
  show "loadVisiblePopulation_geojson fetch minLng minLat maxLng maxLat =
     Inr \<lparr>features = concat (map (geojson_shard_records fetch minLng minLat maxLng maxLat)
                             [1..<Suc totalChunks])\<rparr>"
    by (rule loadVisiblePopulation_geojson_merged)
qed

lemma sample_fetch_text:
  "fetch_text sample_fetch ''/competition_data.csv'' = Inr ''rows''"
  "fetch_text sample_fetch ''/commercial_land.csv'' = Inr ''rows''"
  "fetch_text sample_fetch ''/postcode_to_bua_mapped.csv'' = Inr ''rows''"
  "fetch_text sample_fetch ''/traffic_data.csv'' = Inr ''rows''"
  by (simp_all add: fetch_text_def sample_fetch_def sample_response_def)

theorem order_preservation_witness:
  "fetch_text sample_fetch ''/competition_data.csv'' = Inr ''rows'' \<and>
   readCompetitionsData sample_fetch sample_papa =
     Inr \<lparr>features = survivors readCompetitionsData_row (sample_papa ''rows'')\<rparr> \<and>
   fetch_text sample_fetch ''/commercial_land.csv'' = Inr ''rows'' \<and>
   readCommercialLandData sample_fetch sample_papa =
     Inr \<lparr>features = survivors readCommercialLandData_row (sample_papa ''rows'')\<rparr> \<and>
   fetch_text sample_fetch ''/postcode_to_bua_mapped.csv'' = Inr ''rows'' \<and>
   readPopulationData sample_fetch sample_papa =
     Inr \<lparr>features = survivors readPopulationData_row (sample_papa ''rows'')\<rparr> \<and>
   fetch_text sample_fetch ''/traffic_data.csv'' = Inr ''rows'' \<and>
   readTrafficData sample_fetch sample_papa =
     Inr \<lparr>features = survivors readTrafficData_row (sample_papa ''rows'')\<rparr>"
  using sample_fetch_text
    order_preservation [of sample_fetch "''rows''" sample_papa NaN NaN NaN NaN]
  by simp

lemma concat_all_empty: "(\<And>x. x \<in> set xs \<Longrightarrow> g x = []) \<Longrightarrow> concat (map g xs) = []"
  by (induction xs) auto

section \<open>Failure of a shard\<close>

text \<open>
  C4. The windowed loader never rejects. A shard whose retrieval or decoding fails
  (for CSV chunks: \<open>fetch\<close> or \<open>response.text()\<close> rejects; for GeoJSON chunks:
  \<open>fetch\<close> rejects, the response is not ok, or \<open>response.json()\<close> rejects) is
  skipped: the result is the merged records of every other shard, in order. When every
  shard 1..totalChunks fails the result is the empty collection.
\<close>

theorem shard_fault_tolerance:
  "(\<exists>fc. loadVisiblePopulation fetch papa minLng minLat maxLng maxLat = Inr fc) \<and>
   (fetch_text fetch (chunk_csv_url k) = Inl e \<longrightarrow>
      loadVisiblePopulation fetch papa minLng minLat maxLng maxLat =
        Inr \<lparr>features =
               concat (map (csv_shard_records fetch papa minLng minLat maxLng maxLat)
                 (filter (\<lambda>i. i \<noteq> k) [1..<Suc totalChunks]))\<rparr>) \<and>
   ((\<forall>i. 1 \<le> i \<and> i \<le> totalChunks \<longrightarrow> (\<exists>e. fetch_text fetch (chunk_csv_url i) = Inl e)) \<longrightarrow>
      loadVisiblePopulation fetch papa minLng minLat maxLng maxLat = Inr \<lparr>features = []\<rparr>) \<and>
   (\<exists>fc. loadVisiblePopulation_geojson fetch minLng minLat maxLng maxLat = Inr fc) \<and>
   (fetchGeoJSON fetch (chunk_geojson_url k) = Inl e \<longrightarrow>
      loadVisiblePopulation_geojson fetch minLng minLat maxLng maxLat =
        Inr \<lparr>features =
               concat (map (geojson_shard_records fetch minLng minLat maxLng maxLat)
                 (filter (\<lambda>i. i \<noteq> k) [1..<Suc totalChunks]))\<rparr>) \<and>
   ((\<forall>i. 1 \<le> i \<and> i \<le> totalChunks \<longrightarrow> (\<exists>e. fetchGeoJSON fetch (chunk_geojson_url i) = Inl e)) \<longrightarrow>
      loadVisiblePopulation_geojson fetch minLng minLat maxLng maxLat = Inr \<lparr>features = []\<rparr>) \<and>
   (fetch url = Inr resp \<and> \<not> response_ok resp \<longrightarrow> (\<exists>e. fetchGeoJSON fetch url = Inl e))"
proof (intro conjI impI)
  show "\<exists>fc. loadVisiblePopulation fetch papa minLng minLat maxLng maxLat = Inr fc"
    by (simp add: loadVisiblePopulation_def)
next
  assume "fetch_text fetch (chunk_csv_url k) = Inl e"
  then have "csv_shard_records fetch papa minLng minLat maxLng maxLat k = []"
    by (simp add: csv_shard_records_def)
  then show "loadVisiblePopulation fetch papa minLng minLat maxLng maxLat =
        Inr \<lparr>features =
               concat (map (csv_shard_records fetch papa minLng minLat maxLng maxLat)
                 (filter (\<lambda>i. i \<noteq> k) [1..<Suc totalChunks]))\<rparr>"
    by (simp only: loadVisiblePopulation_merged concat_skip)
next
  assume a: "\<forall>i. 1 \<le> i \<and> i \<le> totalChunks \<longrightarrow> (\<exists>e. fetch_text fetch (chunk_csv_url i) = Inl e)"
  have "concat (map (csv_shard_records fetch papa minLng minLat maxLng maxLat)
          [1..<Suc totalChunks]) = []"
  proof (rule concat_all_empty)
    fix i assume "i \<in> set [1..<Suc totalChunks]"
    then have "1 \<le> i \<and> i \<le> totalChunks" by auto
    with a obtain e where "fetch_text fetch (chunk_csv_url i) = Inl e" by blast
    then show "csv_shard_records fetch papa minLng minLat maxLng maxLat i = []"
      by (simp add: csv_shard_records_def)
  qed
  then show "loadVisiblePopulation fetch papa minLng minLat maxLng maxLat = Inr \<lparr>features = []\<rparr>"
    by (simp only: loadVisiblePopulation_merged)
next
  show "\<exists>fc. loadVisiblePopulation_geojson fetch minLng minLat maxLng maxLat = Inr fc"
    by (simp add: loadVisiblePopulation_geojson_def)
next
  assume "fetchGeoJSON fetch (chunk_geojson_url k) = Inl e"
  then have "geojson_shard_records fetch minLng minLat maxLng maxLat k = []"
    by (simp add: geojson_shard_records_def)
  then show "loadVisiblePopulation_geojson fetch minLng minLat maxLng maxLat =
        Inr \<lparr>features =
               concat (map (geojson_shard_records fetch minLng minLat maxLng maxLat)
                 (filter (\<lambda>i. i \<noteq> k) [1..<Suc totalChunks]))\<rparr>"
    by (simp only: loadVisiblePopulation_geojson_merged concat_skip)
next
  assume a: "\<forall>i. 1 \<le> i \<and> i \<le> totalChunks \<longrightarrow>
    (\<exists>e. fetchGeoJSON fetch (chunk_geojson_url i) = Inl e)"
  have "concat (map (geojson_shard_records fetch minLng minLat maxLng maxLat)
          [1..<Suc totalChunks]) = []"
  proof (rule concat_all_empty)
    fix i assume "i \<in> set [1..<Suc totalChunks]"
    then have "1 \<le> i \<and> i \<le> totalChunks" by auto
    with a obtain e where "fetchGeoJSON fetch (chunk_geojson_url i) = Inl e" by blast
    then show "geojson_shard_records fetch minLng minLat maxLng maxLat i = []"
      by (simp add: geojson_shard_records_def)
  qed
  then show "loadVisiblePopulation_geojson fetch minLng minLat maxLng maxLat =
      Inr \<lparr>features = []\<rparr>"
    by (simp only: loadVisiblePopulation_geojson_merged)
next
  assume "fetch url = Inr resp \<and> \<not> response_ok resp"
  then show "\<exists>e. fetchGeoJSON fetch url = Inl e"
    by (simp add: fetchGeoJSON_def split: sum.splits)
qed

lemma chunk_csv_url_2: "chunk_csv_url 2 = ''/chunks/chunk_2.csv''"
  by code_simp

lemma sample_windowed_coordinates:
  "(case loadVisiblePopulation sample_fetch sample_papa (Fin 0) (Fin 0) (Fin 50) (Fin 50) of
      Inl e \<Rightarrow> [] | Inr fc \<Rightarrow> map coordinates (features fc)) =
   [(Fin 10, Fin 20), (Fin 20, Fin 20)]"
  by code_simp

theorem shard_fault_tolerance_witness:
  "fetch_text sample_fetch (chunk_csv_url 2) = Inl (JsError ''Failed to fetch'') \<and>
   loadVisiblePopulation sample_fetch sample_papa (Fin 0) (Fin 0) (Fin 50) (Fin 50) =
     Inr \<lparr>features =
            concat (map (csv_shard_records sample_fetch sample_papa (Fin 0) (Fin 0) (Fin 50) (Fin 50))
              (filter (\<lambda>i. i \<noteq> 2) [1..<Suc totalChunks]))\<rparr> \<and>
   (case loadVisiblePopulation sample_fetch sample_papa (Fin 0) (Fin 0) (Fin 50) (Fin 50) of
      Inl e \<Rightarrow> [] | Inr fc \<Rightarrow> map coordinates (features fc)) =
     [(Fin 10, Fin 20), (Fin 20, Fin 20)] \<and>
   loadVisiblePopulation offline_fetch sample_papa (Fin 0) (Fin 0) (Fin 50) (Fin 50) =
     Inr \<lparr>features = []\<rparr> \<and>
   fetchGeoJSON offline_fetch (chunk_geojson_url 2) = Inl (JsError ''Failed to fetch'') \<and>
   loadVisiblePopulation_geojson offline_fetch (Fin 0) (Fin 0) (Fin 50) (Fin 50) =
     Inr \<lparr>features =
            concat (map (geojson_shard_records offline_fetch (Fin 0) (Fin 0) (Fin 50) (Fin 50))
              (filter (\<lambda>i. i \<noteq> 2) [1..<Suc totalChunks]))\<rparr> \<and>
   loadVisiblePopulation_geojson offline_fetch (Fin 0) (Fin 0) (Fin 50) (Fin 50) =
     Inr \<lparr>features = []\<rparr> \<and>
   \<not> response_ok (projr (missing_fetch ''/chunks/chunk_1.geojson'')) \<and>
   (\<exists>e. fetchGeoJSON missing_fetch ''/chunks/chunk_1.geojson'' = Inl e)"
proof -
  have a: "fetch_text sample_fetch (chunk_csv_url 2) = Inl (JsError ''Failed to fetch'')"
    by (simp add: chunk_csv_url_2 fetch_text_def sample_fetch_def)
  have b: "\<forall>i. 1 \<le> i \<and> i \<le> totalChunks \<longrightarrow>
             (\<exists>e. fetch_text offline_fetch (chunk_csv_url i) = Inl e)"
    by (simp add: fetch_text_def offline_fetch_def)
  have c: "fetchGeoJSON offline_fetch (chunk_geojson_url 2) = Inl (JsError ''Failed to fetch'')"
    by (simp add: fetchGeoJSON_def offline_fetch_def)
  have d: "\<forall>i. 1 \<le> i \<and> i \<le> totalChunks \<longrightarrow>
             (\<exists>e. fetchGeoJSON offline_fetch (chunk_geojson_url i) = Inl e)"
    by (simp add: fetchGeoJSON_def offline_fetch_def)
  have m: "missing_fetch ''/chunks/chunk_1.geojson'' =
             Inr (projr (missing_fetch ''/chunks/chunk_1.geojson'')) \<and>
           \<not> response_ok (projr (missing_fetch ''/chunks/chunk_1.geojson''))"
    by (simp add: missing_fetch_def)
  note S = shard_fault_tolerance [where fetch = sample_fetch and papa = sample_papa
      and minLng = "Fin 0" and minLat = "Fin 0" and maxLng = "Fin 50" and maxLat = "Fin 50"
      and k = 2 and e = "JsError ''Failed to fetch''"
      and url = "''/chunks/chunk_1.geojson''"
      and resp = "projr (missing_fetch ''/chunks/chunk_1.geojson'')"]
  note F = shard_fault_tolerance [where fetch = offline_fetch and papa = sample_papa
      and minLng = "Fin 0" and minLat = "Fin 0" and maxLng = "Fin 50" and maxLat = "Fin 50"
      and k = 2 and e = "JsError ''Failed to fetch''"
      and url = "''/chunks/chunk_1.geojson''"
      and resp = "projr (missing_fetch ''/chunks/chunk_1.geojson'')"]
  note M = shard_fault_tolerance [where fetch = missing_fetch and papa = sample_papa
      and minLng = "Fin 0" and minLat = "Fin 0" and maxLng = "Fin 50" and maxLat = "Fin 50"
      and k = 2 and e = "JsError ''Failed to fetch''"
      and url = "''/chunks/chunk_1.geojson''"
      and resp = "projr (missing_fetch ''/chunks/chunk_1.geojson'')"]
  have 1: "loadVisiblePopulation sample_fetch sample_papa (Fin 0) (Fin 0) (Fin 50) (Fin 50) =
     Inr \<lparr>features =
            concat (map (csv_shard_records sample_fetch sample_papa (Fin 0) (Fin 0) (Fin 50) (Fin 50))
              (filter (\<lambda>i. i \<noteq> 2) [1..<Suc totalChunks]))\<rparr>"
    using S a by blast
  have 2: "loadVisiblePopulation offline_fetch sample_papa (Fin 0) (Fin 0) (Fin 50) (Fin 50) =
     Inr \<lparr>features = []\<rparr>"
    using F b by blast
  have 3: "loadVisiblePopulation_geojson offline_fetch (Fin 0) (Fin 0) (Fin 50) (Fin 50) =
     Inr \<lparr>features = []\<rparr>"
    using F d by blast
  have 5: "loadVisiblePopulation_geojson offline_fetch (Fin 0) (Fin 0) (Fin 50) (Fin 50) =
     Inr \<lparr>features =
            concat (map (geojson_shard_records offline_fetch (Fin 0) (Fin 0) (Fin 50) (Fin 50))
              (filter (\<lambda>i. i \<noteq> 2) [1..<Suc totalChunks]))\<rparr>"
    using F c by blast
  have 4: "\<exists>e. fetchGeoJSON missing_fetch ''/chunks/chunk_1.geojson'' = Inl e"
    using M m by blast
  from a 1 sample_windowed_coordinates 2 c 5 3 m 4 show ?thesis
    by (intro conjI) simp_all
qed

lemma parseFloat_500: "parseFloat (Some ''500'') = Fin 500"
  by code_simp

lemma parseFloat_Infinity: "parseFloat (Some ''Infinity'') = PosInf"
  by code_simp

lemma parseFloat_abc: "parseFloat (Some ''abc'') = NaN"
  by code_simp

lemma sample_row_fields:
  "sample_row ''longitude'' = Some ''10''" "sample_row ''latitude'' = Some ''20''"
  "sample_row ''Longitude'' = Some ''10''" "sample_row ''Latitude'' = Some ''20''"
  "sample_row ''type'' = Some ''Storage''"
  by (simp_all add: sample_row_def)

section \<open>The type filter of the competitor dataset\<close>

text \<open>
  C2, as the code has it. A competitor row whose two coordinates parse is kept exactly
  when its raw \<open>type\<close> is one of "Storage", "Self storage facility" and
  "Storage facility". No other callback looks at \<open>type\<close> to decide: changing or
  removing that column never changes whether a commercial, traffic or population row is
  kept.
\<close>

theorem competitor_type_filter:
  "(parseFloat (r ''longitude'') \<noteq> NaN \<and> parseFloat (r ''latitude'') \<noteq> NaN \<longrightarrow>
      (readCompetitionsData_row fs r \<noteq> fs) =
      (r ''type'' = Some ''Storage'' \<or> r ''type'' = Some ''Self storage facility'' \<or>
       r ''type'' = Some ''Storage facility'')) \<and>
   (readCommercialLandData_row fs (r(''type'' := t)) = fs) = (readCommercialLandData_row fs r = fs) \<and>
   (readTrafficData_row fs (r(''type'' := t)) = fs) = (readTrafficData_row fs r = fs) \<and>
   (readPopulationData_row fs (r(''type'' := t)) = fs) = (readPopulationData_row fs r = fs) \<and>
   (loadVisiblePopulation_row minLng minLat maxLng maxLat fs (r(''type'' := t)) = fs) =
     (loadVisiblePopulation_row minLng minLat maxLng maxLat fs r = fs)"
proof (intro conjI impI)
  assume v: "parseFloat (r ''longitude'') \<noteq> NaN \<and> parseFloat (r ''latitude'') \<noteq> NaN"
  then have "r ''longitude'' \<noteq> Some ''''" "r ''latitude'' \<noteq> Some ''''"
    using parseFloat_empty by auto
  with v show "(readCompetitionsData_row fs r \<noteq> fs) =
      (r ''type'' = Some ''Storage'' \<or> r ''type'' = Some ''Self storage facility'' \<or>
       r ''type'' = Some ''Storage facility'')"
    by (simp add: readCompetitionsData_row_def isNaN_def)
next
  show "(readCommercialLandData_row fs (r(''type'' := t)) = fs) =
        (readCommercialLandData_row fs r = fs)"
    by (simp add: readCommercialLandData_row_def Let_def)
next
  show "(readTrafficData_row fs (r(''type'' := t)) = fs) = (readTrafficData_row fs r = fs)"
    by (simp add: readTrafficData_row_def Let_def)
next
  show "(readPopulationData_row fs (r(''type'' := t)) = fs) = (readPopulationData_row fs r = fs)"
    by (simp add: readPopulationData_row_def Let_def)
next
  show "(loadVisiblePopulation_row minLng minLat maxLng maxLat fs (r(''type'' := t)) = fs) =
     (loadVisiblePopulation_row minLng minLat maxLng maxLat fs r = fs)"
    by (simp add: loadVisiblePopulation_row_def Let_def)
qed

theorem competitor_type_filter_witness:
  "parseFloat (sample_row ''longitude'') \<noteq> NaN \<and> parseFloat (sample_row ''latitude'') \<noteq> NaN \<and>
   readCompetitionsData_row [] sample_row \<noteq> [] \<and>
   readCompetitionsData_row [] (sample_row(''type'' \<mapsto> ''Warehouse'')) = []"
proof -
  have v: "parseFloat (sample_row ''longitude'') \<noteq> NaN \<and> parseFloat (sample_row ''latitude'') \<noteq> NaN"
    by (simp add: sample_row_fields parseFloat_10 parseFloat_20)
  then have w: "parseFloat ((sample_row(''type'' \<mapsto> ''Warehouse'')) ''longitude'') \<noteq> NaN \<and>
      parseFloat ((sample_row(''type'' \<mapsto> ''Warehouse'')) ''latitude'') \<noteq> NaN"
    by simp
  have 1: "readCompetitionsData_row [] sample_row \<noteq> []"
    using competitor_type_filter [where fs = "[]" and r = sample_row and t = None
        and minLng = NaN and minLat = NaN and maxLng = NaN and maxLat = NaN, THEN conjunct1] v
    by (simp add: sample_row_fields)
  have 2: "readCompetitionsData_row [] (sample_row(''type'' \<mapsto> ''Warehouse'')) = []"
    using competitor_type_filter [where fs = "[]" and r = "sample_row(''type'' \<mapsto> ''Warehouse'')"
        and t = None and minLng = NaN and minLat = NaN and maxLng = NaN and maxLat = NaN,
        THEN conjunct1] w
    by simp
  from v 1 2 show ?thesis by simp
qed

theorem competitor_type_filter_counterexample:
  "parseFloat (Some ''10'') = Fin 10 \<and> parseFloat (Some ''20'') = Fin 20 \<and>
   readCompetitionsData_row []
     [''longitude'' \<mapsto> ''10'', ''latitude'' \<mapsto> ''20'', ''type'' \<mapsto> ''Storage facification''] = [] \<and>
   readCompetitionsData_row []
     [''longitude'' \<mapsto> ''10'', ''latitude'' \<mapsto> ''20'', ''type'' \<mapsto> ''Storage facility''] \<noteq> []"
  by (simp add: readCompetitionsData_row_def parseFloat_10 parseFloat_20 isNaN_def)

lemma sample_row_kept_1:
  "readCompetitionsData_row [] sample_row = [] @ [hd (readCompetitionsData_row [] sample_row)]"
  by (simp add: readCompetitionsData_row_def sample_row_fields parseFloat_10 parseFloat_20 isNaN_def)

lemma sample_row_kept_2:
  "readCommercialLandData_row [] sample_row = [] @ [hd (readCommercialLandData_row [] sample_row)]"
  by (simp add: readCommercialLandData_row_def sample_row_fields parseFloat_10 parseFloat_20 isNaN_def)

lemma sample_row_kept_3:
  "readTrafficData_row [] sample_row = [] @ [hd (readTrafficData_row [] sample_row)]"
  by (simp add: readTrafficData_row_def sample_row_fields parseFloat_10 parseFloat_20 isNaN_def)

lemma sample_row_kept_4:
  "readPopulationData_row [] sample_row = [] @ [hd (readPopulationData_row [] sample_row)]"
  by (simp add: readPopulationData_row_def sample_row_fields parseFloat_10 parseFloat_20 isNaN_def)

lemma sample_row_kept_5:
  "loadVisiblePopulation_row (Fin 0) (Fin 0) (Fin 50) (Fin 50) [] sample_row = [] @ [hd (loadVisiblePopulation_row (Fin 0) (Fin 0) (Fin 50) (Fin 50) [] sample_row)]"
  by (simp add: loadVisiblePopulation_row_def sample_row_fields parseFloat_10 parseFloat_20 isNaN_def js_gt_def)

section \<open>Rows without a usable coordinate\<close>

text \<open>
  C3, as the code has it. \<open>parseFloat\<close> gives NaN for an absent column, for the empty
  string and for a string with no leading numeral, and every callback drops a row one of
  whose two coordinate columns parses to NaN; so neither coordinate of an emitted record
  is NaN, and the coordinates are the two parsed values. No callback tests finiteness or
  the ranges of longitude and latitude. A commercial, traffic or whole-file population
  row is kept exactly when both columns parse; a competitor row exactly when both parse
  and its type is one of the three allowed; a row of the windowed loader exactly when
  both parse and neither parsed value is below the caller's minimum or above the
  caller's maximum.
\<close>

theorem drop_on_invalid_coordinate:
  "parseFloat None = NaN \<and> parseFloat (Some '''') = NaN \<and> parseFloat (Some ''abc'') = NaN \<and>
   ((readCompetitionsData_row fs r \<noteq> fs) =
      (parseFloat (r ''longitude'') \<noteq> NaN \<and> parseFloat (r ''latitude'') \<noteq> NaN \<and>
       (r ''type'' = Some ''Storage'' \<or> r ''type'' = Some ''Self storage facility'' \<or>
        r ''type'' = Some ''Storage facility''))) \<and>
   (readCompetitionsData_row fs r = fs @ [f] \<longrightarrow>
      fst (coordinates f) \<noteq> NaN \<and> snd (coordinates f) \<noteq> NaN \<and>
      coordinates f = (parseFloat (r ''longitude''), parseFloat (r ''latitude''))) \<and>
   ((readCommercialLandData_row fs r = fs) =
      (parseFloat (r ''longitude'') = NaN \<or> parseFloat (r ''latitude'') = NaN)) \<and>
   (readCommercialLandData_row fs r = fs @ [f] \<longrightarrow>
      fst (coordinates f) \<noteq> NaN \<and> snd (coordinates f) \<noteq> NaN \<and>
      coordinates f = (parseFloat (r ''latitude''), parseFloat (r ''longitude''))) \<and>
   ((readTrafficData_row fs r = fs) =
      (parseFloat (r ''longitude'') = NaN \<or> parseFloat (r ''latitude'') = NaN)) \<and>
   (readTrafficData_row fs r = fs @ [f] \<longrightarrow>
      fst (coordinates f) \<noteq> NaN \<and> snd (coordinates f) \<noteq> NaN \<and>
      coordinates f = (parseFloat (r ''longitude''), parseFloat (r ''latitude''))) \<and>
   ((readPopulationData_row fs r = fs) =
      (parseFloat (r ''Longitude'') = NaN \<or> parseFloat (r ''Latitude'') = NaN)) \<and>
   (readPopulationData_row fs r = fs @ [f] \<longrightarrow>
      fst (coordinates f) \<noteq> NaN \<and> snd (coordinates f) \<noteq> NaN \<and>
      coordinates f = (parseFloat (r ''Longitude''), parseFloat (r ''Latitude''))) \<and>
   ((loadVisiblePopulation_row minLng minLat maxLng maxLat fs r \<noteq> fs) =
      (parseFloat (r ''Longitude'') \<noteq> NaN \<and> parseFloat (r ''Latitude'') \<noteq> NaN \<and>
       \<not> js_lt (parseFloat (r ''Longitude'')) minLng \<and> \<not> js_gt (parseFloat (r ''Longitude'')) maxLng \<and>
       \<not> js_lt (parseFloat (r ''Latitude'')) minLat \<and> \<not> js_gt (parseFloat (r ''Latitude'')) maxLat)) \<and>
   (loadVisiblePopulation_row minLng minLat maxLng maxLat fs r = fs @ [f] \<longrightarrow>
      fst (coordinates f) \<noteq> NaN \<and> snd (coordinates f) \<noteq> NaN \<and>
      coordinates f = (parseFloat (r ''Longitude''), parseFloat (r ''Latitude'')))"
proof -
  have a1: "(readCompetitionsData_row fs r \<noteq> fs) =
      (parseFloat (r ''longitude'') \<noteq> NaN \<and> parseFloat (r ''latitude'') \<noteq> NaN \<and>
       (r ''type'' = Some ''Storage'' \<or> r ''type'' = Some ''Self storage facility'' \<or>
        r ''type'' = Some ''Storage facility''))"
    using parseFloat_empty by (auto simp: readCompetitionsData_row_def Let_def isNaN_def)
  have b1: "readCompetitionsData_row fs r = fs @ [f] \<longrightarrow>
      fst (coordinates f) \<noteq> NaN \<and> snd (coordinates f) \<noteq> NaN \<and>
      coordinates f = (parseFloat (r ''longitude''), parseFloat (r ''latitude''))"
    by (auto simp: readCompetitionsData_row_def Let_def isNaN_def split: if_splits)
  have a2: "(readCommercialLandData_row fs r = fs) =
      (parseFloat (r ''longitude'') = NaN \<or> parseFloat (r ''latitude'') = NaN)"
    by (simp add: readCommercialLandData_row_def Let_def isNaN_def)
  have b2: "readCommercialLandData_row fs r = fs @ [f] \<longrightarrow>
      fst (coordinates f) \<noteq> NaN \<and> snd (coordinates f) \<noteq> NaN \<and>
      coordinates f = (parseFloat (r ''latitude''), parseFloat (r ''longitude''))"
    by (auto simp: readCommercialLandData_row_def Let_def isNaN_def split: if_splits)
  have a3: "(readTrafficData_row fs r = fs) =
      (parseFloat (r ''longitude'') = NaN \<or> parseFloat (r ''latitude'') = NaN)"
    by (simp add: readTrafficData_row_def Let_def isNaN_def)
  have b3: "readTrafficData_row fs r = fs @ [f] \<longrightarrow>
      fst (coordinates f) \<noteq> NaN \<and> snd (coordinates f) \<noteq> NaN \<and>
      coordinates f = (parseFloat (r ''longitude''), parseFloat (r ''latitude''))"
    by (auto simp: readTrafficData_row_def Let_def isNaN_def split: if_splits)
  have a4: "(readPopulationData_row fs r = fs) =
      (parseFloat (r ''Longitude'') = NaN \<or> parseFloat (r ''Latitude'') = NaN)"
    by (simp add: readPopulationData_row_def Let_def isNaN_def)
  have b4: "readPopulationData_row fs r = fs @ [f] \<longrightarrow>
      fst (coordinates f) \<noteq> NaN \<and> snd (coordinates f) \<noteq> NaN \<and>
      coordinates f = (parseFloat (r ''Longitude''), parseFloat (r ''Latitude''))"
    by (auto simp: readPopulationData_row_def Let_def isNaN_def split: if_splits)
  have a5: "(loadVisiblePopulation_row minLng minLat maxLng maxLat fs r \<noteq> fs) =
      (parseFloat (r ''Longitude'') \<noteq> NaN \<and> parseFloat (r ''Latitude'') \<noteq> NaN \<and>
       \<not> js_lt (parseFloat (r ''Longitude'')) minLng \<and> \<not> js_gt (parseFloat (r ''Longitude'')) maxLng \<and>
       \<not> js_lt (parseFloat (r ''Latitude'')) minLat \<and> \<not> js_gt (parseFloat (r ''Latitude'')) maxLat)"
    by (auto simp: loadVisiblePopulation_row_def Let_def isNaN_def)
  have b5: "loadVisiblePopulation_row minLng minLat maxLng maxLat fs r = fs @ [f] \<longrightarrow>
      fst (coordinates f) \<noteq> NaN \<and> snd (coordinates f) \<noteq> NaN \<and>
      coordinates f = (parseFloat (r ''Longitude''), parseFloat (r ''Latitude''))"
    by (auto simp: loadVisiblePopulation_row_def Let_def isNaN_def split: if_splits)
  from parseFloat_undefined parseFloat_empty parseFloat_abc a1 b1 a2 b2 a3 b3 a4 b4 a5 b5
  show ?thesis by (intro conjI)
qed

theorem drop_on_invalid_coordinate_witness:
  "readCompetitionsData_row [] Map.empty = [] \<and>
   loadVisiblePopulation_row (Fin 0) (Fin 0) (Fin 50) (Fin 50) [] Map.empty = [] \<and>
   readCompetitionsData_row [] sample_row = [] @ [hd (readCompetitionsData_row [] sample_row)] \<and>
   fst (coordinates (hd (readCompetitionsData_row [] sample_row))) \<noteq> NaN \<and>
   snd (coordinates (hd (readCompetitionsData_row [] sample_row))) \<noteq> NaN \<and>
   readCommercialLandData_row [] sample_row = [] @ [hd (readCommercialLandData_row [] sample_row)] \<and>
   fst (coordinates (hd (readCommercialLandData_row [] sample_row))) \<noteq> NaN \<and>
   snd (coordinates (hd (readCommercialLandData_row [] sample_row))) \<noteq> NaN \<and>
   readTrafficData_row [] sample_row = [] @ [hd (readTrafficData_row [] sample_row)] \<and>
   fst (coordinates (hd (readTrafficData_row [] sample_row))) \<noteq> NaN \<and>
   snd (coordinates (hd (readTrafficData_row [] sample_row))) \<noteq> NaN \<and>
   readPopulationData_row [] sample_row = [] @ [hd (readPopulationData_row [] sample_row)] \<and>
   fst (coordinates (hd (readPopulationData_row [] sample_row))) \<noteq> NaN \<and>
   snd (coordinates (hd (readPopulationData_row [] sample_row))) \<noteq> NaN \<and>
   loadVisiblePopulation_row (Fin 0) (Fin 0) (Fin 50) (Fin 50) [] sample_row = [] @ [hd (loadVisiblePopulation_row (Fin 0) (Fin 0) (Fin 50) (Fin 50) [] sample_row)] \<and>
   fst (coordinates (hd (loadVisiblePopulation_row (Fin 0) (Fin 0) (Fin 50) (Fin 50) [] sample_row))) \<noteq> NaN \<and>
   snd (coordinates (hd (loadVisiblePopulation_row (Fin 0) (Fin 0) (Fin 50) (Fin 50) [] sample_row))) \<noteq> NaN"
proof -
  have e: "parseFloat (Map.empty ''longitude'') = NaN" "parseFloat (Map.empty ''Longitude'') = NaN"
    by (simp_all add: parseFloat_undefined)
  have d1: "readCompetitionsData_row [] Map.empty = []"
    using drop_on_invalid_coordinate [where fs = "[]" and r = Map.empty and f = "hd []"
        and minLng = "Fin 0" and minLat = "Fin 0" and maxLng = "Fin 50" and maxLat = "Fin 50",
        THEN conjunct2, THEN conjunct2, THEN conjunct2, THEN conjunct1] e
    by simp
  have d2: "loadVisiblePopulation_row (Fin 0) (Fin 0) (Fin 50) (Fin 50) [] Map.empty = []"
    using drop_on_invalid_coordinate [where fs = "[]" and r = Map.empty and f = "hd []"
        and minLng = "Fin 0" and minLat = "Fin 0" and maxLng = "Fin 50" and maxLat = "Fin 50",
        THEN conjunct2, THEN conjunct2, THEN conjunct2, THEN conjunct2, THEN conjunct2, THEN conjunct2, THEN conjunct2, THEN conjunct2, THEN conjunct2, THEN conjunct2, THEN conjunct2, THEN conjunct1] e
    by simp
  have k1: "fst (coordinates (hd (readCompetitionsData_row [] sample_row))) \<noteq> NaN \<and>
      snd (coordinates (hd (readCompetitionsData_row [] sample_row))) \<noteq> NaN"
    using drop_on_invalid_coordinate [where fs = "[]" and r = sample_row and f = "hd (readCompetitionsData_row [] sample_row)"
        and minLng = "Fin 0" and minLat = "Fin 0" and maxLng = "Fin 50" and maxLat = "Fin 50",
        THEN conjunct2, THEN conjunct2, THEN conjunct2, THEN conjunct2, THEN conjunct1]
      sample_row_kept_1
    by blast
  have k2: "fst (coordinates (hd (readCommercialLandData_row [] sample_row))) \<noteq> NaN \<and>
      snd (coordinates (hd (readCommercialLandData_row [] sample_row))) \<noteq> NaN"
    using drop_on_invalid_coordinate [where fs = "[]" and r = sample_row and f = "hd (readCommercialLandData_row [] sample_row)"
        and minLng = "Fin 0" and minLat = "Fin 0" and maxLng = "Fin 50" and maxLat = "Fin 50",
        THEN conjunct2, THEN conjunct2, THEN conjunct2, THEN conjunct2, THEN conjunct2, THEN conjunct2, THEN conjunct1]
      sample_row_kept_2
    by blast
  have k3: "fst (coordinates (hd (readTrafficData_row [] sample_row))) \<noteq> NaN \<and>
      snd (coordinates (hd (readTrafficData_row [] sample_row))) \<noteq> NaN"
    using drop_on_invalid_coordinate [where fs = "[]" and r = sample_row and f = "hd (readTrafficData_row [] sample_row)"
        and minLng = "Fin 0" and minLat = "Fin 0" and maxLng = "Fin 50" and maxLat = "Fin 50",
        THEN conjunct2, THEN conjunct2, THEN conjunct2, THEN conjunct2, THEN conjunct2, THEN conjunct2, THEN conjunct2, THEN conjunct2, THEN conjunct1]
      sample_row_kept_3
    by blast
  have k4: "fst (coordinates (hd (readPopulationData_row [] sample_row))) \<noteq> NaN \<and>
      snd (coordinates (hd (readPopulationData_row [] sample_row))) \<noteq> NaN"
    using drop_on_invalid_coordinate [where fs = "[]" and r = sample_row and f = "hd (readPopulationData_row [] sample_row)"
        and minLng = "Fin 0" and minLat = "Fin 0" and maxLng = "Fin 50" and maxLat = "Fin 50",
        THEN conjunct2, THEN conjunct2, THEN conjunct2, THEN conjunct2, THEN conjunct2, THEN conjunct2, THEN conjunct2, THEN conjunct2, THEN conjunct2, THEN conjunct2, THEN conjunct1]
      sample_row_kept_4
    by blast
  have k5: "fst (coordinates (hd (loadVisiblePopulation_row (Fin 0) (Fin 0) (Fin 50) (Fin 50) [] sample_row))) \<noteq> NaN \<and>
      snd (coordinates (hd (loadVisiblePopulation_row (Fin 0) (Fin 0) (Fin 50) (Fin 50) [] sample_row))) \<noteq> NaN"
    using drop_on_invalid_coordinate [where fs = "[]" and r = sample_row and f = "hd (loadVisiblePopulation_row (Fin 0) (Fin 0) (Fin 50) (Fin 50) [] sample_row)"
        and minLng = "Fin 0" and minLat = "Fin 0" and maxLng = "Fin 50" and maxLat = "Fin 50",
        THEN conjunct2, THEN conjunct2, THEN conjunct2, THEN conjunct2, THEN conjunct2, THEN conjunct2, THEN conjunct2, THEN conjunct2, THEN conjunct2, THEN conjunct2, THEN conjunct2, THEN conjunct2]
      sample_row_kept_5
    by blast
  from d1
    d2
    sample_row_kept_1
    k1 [THEN conjunct1]
    k1 [THEN conjunct2]
    sample_row_kept_2
    k2 [THEN conjunct1]
    k2 [THEN conjunct2]
    sample_row_kept_3
    k3 [THEN conjunct1]
    k3 [THEN conjunct2]
    sample_row_kept_4
    k4 [THEN conjunct1]
    k4 [THEN conjunct2]
    sample_row_kept_5
    k5 [THEN conjunct1]
    k5 [THEN conjunct2]
  show ?thesis by (intro conjI)
qed

theorem drop_on_invalid_coordinate_counterexample:
  "map coordinates (readTrafficData_row [] [''longitude'' \<mapsto> ''500'', ''latitude'' \<mapsto> ''Infinity'']) =
     [(Fin 500, PosInf)] \<and>
   js_gt (Fin 500) (Fin 180) \<and> js_gt PosInf (Fin 90)"
  by (simp add: readTrafficData_row_def parseFloat_500 parseFloat_Infinity isNaN_def js_gt_def)

lemma js_le_Fin: "js_le (Fin x) (Fin y) = (x \<le> y)"
  by (auto simp: js_le_def)

lemma js_lt_between:
  "js_lt c a \<Longrightarrow> x \<noteq> NaN \<Longrightarrow> js_lt x a \<or> js_lt c x"
  by (cases c; cases a; cases x) auto

section \<open>The bounding-box filter\<close>

text \<open>
  C5, as the code has it. Writing \<open>js_le\<close> for the comparison \<open>\<le>\<close> of two
  numbers: the filter of the GeoJSON chunk loader keeps a feature exactly when
  minLng \<le> lng \<le> maxLng and minLat \<le> lat \<le> maxLat; so does the callback of the CSV
  chunk loader when none of the four bounds is NaN. In both, a point on a bound is kept,
  a point strictly outside one bound is dropped whatever the other bounds are, and a box
  with a minimum above its maximum keeps no point.
\<close>

theorem bounding_box_inclusive:
  "visible minLng minLat maxLng maxLat f =
     (js_le minLng (fst (coordinates f)) \<and> js_le (fst (coordinates f)) maxLng \<and>
      js_le minLat (snd (coordinates f)) \<and> js_le (snd (coordinates f)) maxLat) \<and>
   (minLng \<noteq> NaN \<and> minLat \<noteq> NaN \<and> maxLng \<noteq> NaN \<and> maxLat \<noteq> NaN \<longrightarrow>
      (loadVisiblePopulation_row minLng minLat maxLng maxLat fs r \<noteq> fs) =
      (js_le minLng (parseFloat (r ''Longitude'')) \<and> js_le (parseFloat (r ''Longitude'')) maxLng \<and>
       js_le minLat (parseFloat (r ''Latitude'')) \<and> js_le (parseFloat (r ''Latitude'')) maxLat)) \<and>
   (js_lt (parseFloat (r ''Longitude'')) minLng \<or> js_gt (parseFloat (r ''Longitude'')) maxLng \<or>
    js_lt (parseFloat (r ''Latitude'')) minLat \<or> js_gt (parseFloat (r ''Latitude'')) maxLat \<longrightarrow>
      loadVisiblePopulation_row minLng minLat maxLng maxLat fs r = fs) \<and>
   (js_lt (fst (coordinates f)) minLng \<or> js_gt (fst (coordinates f)) maxLng \<or>
    js_lt (snd (coordinates f)) minLat \<or> js_gt (snd (coordinates f)) maxLat \<longrightarrow>
      \<not> visible minLng minLat maxLng maxLat f) \<and>
   (js_gt minLng maxLng \<or> js_gt minLat maxLat \<longrightarrow>
      \<not> visible minLng minLat maxLng maxLat f \<and>
      loadVisiblePopulation_row minLng minLat maxLng maxLat fs r = fs)"
proof -
  obtain lng lat where c: "coordinates f = (lng, lat)"
    by (cases "coordinates f")
  have 1: "visible minLng minLat maxLng maxLat f =
     (js_le minLng (fst (coordinates f)) \<and> js_le (fst (coordinates f)) maxLng \<and>
      js_le minLat (snd (coordinates f)) \<and> js_le (snd (coordinates f)) maxLat)"
    by (auto simp: visible_def c js_le_def js_ge_def)
  have 2: "minLng \<noteq> NaN \<and> minLat \<noteq> NaN \<and> maxLng \<noteq> NaN \<and> maxLat \<noteq> NaN \<longrightarrow>
      (loadVisiblePopulation_row minLng minLat maxLng maxLat fs r \<noteq> fs) =
      (js_le minLng (parseFloat (r ''Longitude'')) \<and> js_le (parseFloat (r ''Longitude'')) maxLng \<and>
       js_le minLat (parseFloat (r ''Latitude'')) \<and> js_le (parseFloat (r ''Latitude'')) maxLat)"
    by (auto simp: loadVisiblePopulation_row_def Let_def isNaN_def js_le_def js_gt_def)
  have 3: "js_lt (parseFloat (r ''Longitude'')) minLng \<or> js_gt (parseFloat (r ''Longitude'')) maxLng \<or>
    js_lt (parseFloat (r ''Latitude'')) minLat \<or> js_gt (parseFloat (r ''Latitude'')) maxLat \<longrightarrow>
      loadVisiblePopulation_row minLng minLat maxLng maxLat fs r = fs"
    by (auto simp: loadVisiblePopulation_row_def Let_def)
  have 4: "js_lt (fst (coordinates f)) minLng \<or> js_gt (fst (coordinates f)) maxLng \<or>
    js_lt (snd (coordinates f)) minLat \<or> js_gt (snd (coordinates f)) maxLat \<longrightarrow>
      \<not> visible minLng minLat maxLng maxLat f"
    by (auto simp: visible_def c js_le_def js_ge_def js_gt_def)
  have 5: "js_gt minLng maxLng \<or> js_gt minLat maxLat \<longrightarrow>
      \<not> visible minLng minLat maxLng maxLat f \<and>
      loadVisiblePopulation_row minLng minLat maxLng maxLat fs r = fs"
  proof (intro impI conjI)
    assume inv: "js_gt minLng maxLng \<or> js_gt minLat maxLat"
    show "\<not> visible minLng minLat maxLng maxLat f"
    proof
      assume "visible minLng minLat maxLng maxLat f"
      then have v: "lng \<noteq> NaN" "lat \<noteq> NaN" "\<not> js_lt lng minLng" "\<not> js_lt maxLng lng"
        "\<not> js_lt lat minLat" "\<not> js_lt maxLat lat"
        by (auto simp: visible_def c js_le_def js_ge_def)
      from inv show False
        using js_lt_between [of maxLng minLng lng] js_lt_between [of maxLat minLat lat] v
        by (auto simp: js_gt_def)
    qed
    show "loadVisiblePopulation_row minLng minLat maxLng maxLat fs r = fs"
      using inv js_lt_between [of maxLng minLng "parseFloat (r ''Longitude'')"]
        js_lt_between [of maxLat minLat "parseFloat (r ''Latitude'')"]
      by (auto simp: loadVisiblePopulation_row_def Let_def isNaN_def js_gt_def)
  qed
  from 1 2 3 4 5 show ?thesis by (intro conjI)
qed

theorem bounding_box_inclusive_witness:
  "loadVisiblePopulation_row (Fin 10) (Fin 20) (Fin 10) (Fin 20) [] sample_row \<noteq> [] \<and>
   js_lt (parseFloat (sample_row ''Longitude'')) (Fin 11) \<and>
   loadVisiblePopulation_row (Fin 11) (Fin 0) (Fin 50) (Fin 50) [] sample_row = [] \<and>
   js_lt (fst (coordinates \<lparr>coordinates = (Fin 10, Fin 20), properties = Map.empty\<rparr>)) (Fin 11) \<and>
   \<not> visible (Fin 11) (Fin 0) (Fin 50) (Fin 50)
       \<lparr>coordinates = (Fin 10, Fin 20), properties = Map.empty\<rparr> \<and>
   js_gt (Fin 50) (Fin 0) \<and>
   \<not> visible (Fin 50) (Fin 0) (Fin 0) (Fin 50)
       \<lparr>coordinates = (Fin 10, Fin 20), properties = Map.empty\<rparr> \<and>
   loadVisiblePopulation_row (Fin 50) (Fin 0) (Fin 0) (Fin 50) [] sample_row = [] \<and>
   visible (Fin 10) (Fin 20) (Fin 10) (Fin 20)
       \<lparr>coordinates = (Fin 10, Fin 20), properties = Map.empty\<rparr>"
proof -
  let ?f = "\<lparr>coordinates = (Fin 10, Fin 20), properties = Map.empty\<rparr>"
  have p: "parseFloat (sample_row ''Longitude'') = Fin 10"
    "parseFloat (sample_row ''Latitude'') = Fin 20"
    by (simp_all add: sample_row_fields parseFloat_10 parseFloat_20)
  have 1: "loadVisiblePopulation_row (Fin 10) (Fin 20) (Fin 10) (Fin 20) [] sample_row \<noteq> []"
    using bounding_box_inclusive [where minLng = "Fin 10" and minLat = "Fin 20"
        and maxLng = "Fin 10" and maxLat = "Fin 20" and fs = "[]" and r = sample_row and f = ?f,
        THEN conjunct2, THEN conjunct1]
    by (simp add: p js_le_Fin)
  have 2: "js_lt (parseFloat (sample_row ''Longitude'')) (Fin 11)"
    by (simp add: p)
  have 3: "loadVisiblePopulation_row (Fin 11) (Fin 0) (Fin 50) (Fin 50) [] sample_row = []"
    using bounding_box_inclusive [where minLng = "Fin 11" and minLat = "Fin 0"
        and maxLng = "Fin 50" and maxLat = "Fin 50" and fs = "[]" and r = sample_row and f = ?f,
        THEN conjunct2, THEN conjunct2, THEN conjunct1] 2
    by blast
  have 4: "js_lt (fst (coordinates ?f)) (Fin 11)"
    by simp
  have 5: "\<not> visible (Fin 11) (Fin 0) (Fin 50) (Fin 50) ?f"
    using bounding_box_inclusive [where minLng = "Fin 11" and minLat = "Fin 0"
        and maxLng = "Fin 50" and maxLat = "Fin 50" and fs = "[]" and r = sample_row and f = ?f,
        THEN conjunct2, THEN conjunct2, THEN conjunct2, THEN conjunct1] 4
    by blast
  have 6: "js_gt (Fin 50) (Fin 0)"
    by (simp add: js_gt_def)
  have 7: "\<not> visible (Fin 50) (Fin 0) (Fin 0) (Fin 50) ?f \<and>
      loadVisiblePopulation_row (Fin 50) (Fin 0) (Fin 0) (Fin 50) [] sample_row = []"
    using bounding_box_inclusive [where minLng = "Fin 50" and minLat = "Fin 0"
        and maxLng = "Fin 0" and maxLat = "Fin 50" and fs = "[]" and r = sample_row and f = ?f,
        THEN conjunct2, THEN conjunct2, THEN conjunct2, THEN conjunct2] 6
    by blast
  have 8: "visible (Fin 10) (Fin 20) (Fin 10) (Fin 20) ?f"
    using bounding_box_inclusive [where minLng = "Fin 10" and minLat = "Fin 20"
        and maxLng = "Fin 10" and maxLat = "Fin 20" and fs = "[]" and r = sample_row and f = ?f,
        THEN conjunct1]
    by (simp add: js_le_Fin)
  from 1 2 3 4 5 6 7 [THEN conjunct1] 7 [THEN conjunct2] 8 show ?thesis
    by (intro conjI)
qed

theorem bounding_box_inclusive_counterexample:
  "parseFloat (sample_row ''Longitude'') = Fin 10 \<and>
   \<not> js_le NaN (parseFloat (sample_row ''Longitude'')) \<and>
   loadVisiblePopulation_row NaN (Fin 0) (Fin 50) (Fin 50) [] sample_row \<noteq> [] \<and>
   \<not> visible NaN (Fin 0) (Fin 50) (Fin 50)
       \<lparr>coordinates = (Fin 10, Fin 20), properties = Map.empty\<rparr>"
  by (simp add: loadVisiblePopulation_row_def sample_row_fields parseFloat_10 parseFloat_20
      isNaN_def js_gt_def js_le_def js_ge_def visible_def)

lemma parseInt10_abc: "parseInt10 (Some ''abc'') = NaN"
  by code_simp

lemma parseInt10_na: "parseInt10 (Some ''n/a'') = NaN"
  by code_simp

lemma parseInt10_undefined: "parseInt10 None = NaN"
  by code_simp

lemma parseInt10_1234: "parseInt10 (Some ''1234'') = Fin 1234"
  by code_simp

lemma readTrafficData_row_properties:
  "readTrafficData_row fs r = fs @ [f] \<Longrightarrow>
   properties f =
     [''pointType'' \<mapsto> JString ''traffic'',
      ''year'' \<mapsto> JNumber (parseInt10 (r ''year'')),
      ''all_motor_vehicles'' \<mapsto> JNumber (or_zero (parseInt10 (r ''all_motor_vehicles'')))]"
  by (auto simp: readTrafficData_row_def Let_def split: if_splits)

section \<open>Numeric defaults of the traffic dataset\<close>

text \<open>
  C6, as the code has it. In a traffic record, \<open>all_motor_vehicles\<close> is 0 when the raw
  value does not parse as an integer. \<open>year\<close> is always present and is whatever
  \<open>parseInt\<close> returns: when the raw value does not parse it is the number NaN, which
  is neither zero nor \<open>undefined\<close>, and the key is not missing.
\<close>

theorem traffic_numeric_default:
  "readTrafficData_row fs r = fs @ [f] \<longrightarrow>
     (parseInt10 (r ''all_motor_vehicles'') = NaN \<longrightarrow>
        properties f ''all_motor_vehicles'' = Some (JNumber (Fin 0))) \<and>
     properties f ''year'' = Some (JNumber (parseInt10 (r ''year''))) \<and>
     (parseInt10 (r ''year'') = NaN \<longrightarrow>
        properties f ''year'' = Some (JNumber NaN) \<and>
        properties f ''year'' \<noteq> Some (JNumber (Fin 0)) \<and>
        properties f ''year'' \<noteq> Some JUndefined \<and>
        properties f ''year'' \<noteq> None)"
proof
  assume "readTrafficData_row fs r = fs @ [f]"
  then have p: "properties f =
     [''pointType'' \<mapsto> JString ''traffic'',
      ''year'' \<mapsto> JNumber (parseInt10 (r ''year'')),
      ''all_motor_vehicles'' \<mapsto> JNumber (or_zero (parseInt10 (r ''all_motor_vehicles'')))]"
    by (rule readTrafficData_row_properties)
  show "(parseInt10 (r ''all_motor_vehicles'') = NaN \<longrightarrow>
        properties f ''all_motor_vehicles'' = Some (JNumber (Fin 0))) \<and>
     properties f ''year'' = Some (JNumber (parseInt10 (r ''year''))) \<and>
     (parseInt10 (r ''year'') = NaN \<longrightarrow>
        properties f ''year'' = Some (JNumber NaN) \<and>
        properties f ''year'' \<noteq> Some (JNumber (Fin 0)) \<and>
        properties f ''year'' \<noteq> Some JUndefined \<and>
        properties f ''year'' \<noteq> None)"
    by (simp add: p or_zero_def)
qed

theorem traffic_numeric_default_witness:
  "readTrafficData_row [] (sample_row(''year'' \<mapsto> ''abc'', ''all_motor_vehicles'' \<mapsto> ''n/a'')) =
     [] @ [hd (readTrafficData_row []
                (sample_row(''year'' \<mapsto> ''abc'', ''all_motor_vehicles'' \<mapsto> ''n/a'')))] \<and>
   parseInt10 ((sample_row(''year'' \<mapsto> ''abc'', ''all_motor_vehicles'' \<mapsto> ''n/a''))
     ''all_motor_vehicles'') = NaN \<and>
   parseInt10 ((sample_row(''year'' \<mapsto> ''abc'', ''all_motor_vehicles'' \<mapsto> ''n/a'')) ''year'') = NaN \<and>
   properties (hd (readTrafficData_row []
       (sample_row(''year'' \<mapsto> ''abc'', ''all_motor_vehicles'' \<mapsto> ''n/a''))))
     ''all_motor_vehicles'' = Some (JNumber (Fin 0)) \<and>
   properties (hd (readTrafficData_row []
       (sample_row(''year'' \<mapsto> ''abc'', ''all_motor_vehicles'' \<mapsto> ''n/a''))))
     ''year'' = Some (JNumber NaN)"
proof -
  let ?r = "sample_row(''year'' \<mapsto> ''abc'', ''all_motor_vehicles'' \<mapsto> ''n/a'')"
  have k: "readTrafficData_row [] ?r = [] @ [hd (readTrafficData_row [] ?r)]"
    by (simp add: readTrafficData_row_def sample_row_fields parseFloat_10 parseFloat_20 isNaN_def)
  have a: "parseInt10 (?r ''all_motor_vehicles'') = NaN"
    by (simp add: parseInt10_na)
  have y: "parseInt10 (?r ''year'') = NaN"
    by (simp add: parseInt10_abc)
  from traffic_numeric_default [where fs = "[]" and r = ?r
      and f = "hd (readTrafficData_row [] ?r)"] k a y
  have "properties (hd (readTrafficData_row [] ?r)) ''all_motor_vehicles'' = Some (JNumber (Fin 0)) \<and>
        properties (hd (readTrafficData_row [] ?r)) ''year'' = Some (JNumber NaN)"
    by blast
  with k a y show ?thesis by blast
qed

theorem traffic_numeric_default_counterexample:
  "map (\<lambda>f. properties f ''year'')
     (readTrafficData_row []
        [''longitude'' \<mapsto> ''10'', ''latitude'' \<mapsto> ''20'', ''year'' \<mapsto> ''abc'',
         ''all_motor_vehicles'' \<mapsto> ''n/a'']) =
   [Some (JNumber NaN)]"
  by (simp add: readTrafficData_row_def parseFloat_10 parseFloat_20 isNaN_def parseInt10_abc)

lemma readCompetitionsData_row_properties:
  "readCompetitionsData_row fs r = fs @ [f] \<Longrightarrow>
   properties f =
     [''query'' \<mapsto> field r ''query'',
      ''name'' \<mapsto> field r ''name'',
      ''address'' \<mapsto> field r ''full_address'',
      ''phone'' \<mapsto> field r ''phone'',
      ''site'' \<mapsto> field r ''site'',
      ''pointType'' \<mapsto> JString ''competitor'']
     ++ rest_of [''longitude'', ''latitude''] r"
  by (auto simp: readCompetitionsData_row_def Let_def split: if_splits)

lemma readCommercialLandData_row_pointType:
  "readCommercialLandData_row fs r = fs @ [f] \<Longrightarrow>
   properties f ''pointType'' = Some (JString ''commercial'')"
  by (auto simp: readCommercialLandData_row_def Let_def split: if_splits)

lemma readPopulationData_row_properties:
  "readPopulationData_row fs r = fs @ [f] \<Longrightarrow>
   properties f =
     [''pointType'' \<mapsto> JString ''population''] ++ rest_of [''Latitude'', ''Longitude''] r"
  by (auto simp: readPopulationData_row_def Let_def split: if_splits)

lemma loadVisiblePopulation_row_properties:
  "loadVisiblePopulation_row minLng minLat maxLng maxLat fs r = fs @ [f] \<Longrightarrow>
   properties f =
     (rest_of [''Latitude'', ''Longitude'', ''BUA_Population''] r)
       (''BUA_Population'' \<mapsto> JNumber (or_zero (parseInt10 (r ''BUA_Population''))))"
  by (auto simp: loadVisiblePopulation_row_def Let_def split: if_splits)

section \<open>The pointType discriminator\<close>

text \<open>
  C8, as the code has it. The commercial and traffic loaders always set \<open>pointType\<close> to
  their discriminator. The competitor and whole-file population loaders set it first
  and spread the remaining raw columns after it, so the discriminator stands unless the
  raw row has a column named \<open>pointType\<close>, whose value then replaces it. The callback of
  the windowed chunk loader assigns no \<open>pointType\<close>: a record has one only if its raw
  row has such a column.
\<close>

theorem point_type_discriminator:
  "(readCommercialLandData_row fs r = fs @ [f] \<longrightarrow>
      properties f ''pointType'' = Some (JString ''commercial'')) \<and>
   (readTrafficData_row fs r = fs @ [f] \<longrightarrow>
      properties f ''pointType'' = Some (JString ''traffic'')) \<and>
   (readCompetitionsData_row fs r = fs @ [f] \<longrightarrow>
      properties f ''pointType'' =
        Some (JString (case r ''pointType'' of None \<Rightarrow> ''competitor'' | Some s \<Rightarrow> s))) \<and>
   (readPopulationData_row fs r = fs @ [f] \<longrightarrow>
      properties f ''pointType'' =
        Some (JString (case r ''pointType'' of None \<Rightarrow> ''population'' | Some s \<Rightarrow> s))) \<and>
   (loadVisiblePopulation_row minLng minLat maxLng maxLat fs r = fs @ [f] \<longrightarrow>
      properties f ''pointType'' = map_option JString (r ''pointType''))"
proof -
  have 1: "readCommercialLandData_row fs r = fs @ [f] \<longrightarrow>
      properties f ''pointType'' = Some (JString ''commercial'')"
    by (simp add: readCommercialLandData_row_pointType)
  have 2: "readTrafficData_row fs r = fs @ [f] \<longrightarrow>
      properties f ''pointType'' = Some (JString ''traffic'')"
    by (auto dest!: readTrafficData_row_properties)
  have 3: "readCompetitionsData_row fs r = fs @ [f] \<longrightarrow>
      properties f ''pointType'' =
        Some (JString (case r ''pointType'' of None \<Rightarrow> ''competitor'' | Some s \<Rightarrow> s))"
    by (auto dest!: readCompetitionsData_row_properties
        simp: map_add_def rest_of_def split: option.splits)
  have 4: "readPopulationData_row fs r = fs @ [f] \<longrightarrow>
      properties f ''pointType'' =
        Some (JString (case r ''pointType'' of None \<Rightarrow> ''population'' | Some s \<Rightarrow> s))"
    by (auto dest!: readPopulationData_row_properties
        simp: map_add_def rest_of_def split: option.splits)
  have 5: "loadVisiblePopulation_row minLng minLat maxLng maxLat fs r = fs @ [f] \<longrightarrow>
      properties f ''pointType'' = map_option JString (r ''pointType'')"
    by (auto dest!: loadVisiblePopulation_row_properties simp: rest_of_def)
  from 1 2 3 4 5 show ?thesis by (intro conjI)
qed

theorem point_type_discriminator_witness:
  "properties (hd (readCommercialLandData_row [] sample_row)) ''pointType'' =
     Some (JString ''commercial'') \<and>
   properties (hd (readTrafficData_row [] sample_row)) ''pointType'' =
     Some (JString ''traffic'') \<and>
   properties (hd (readCompetitionsData_row [] sample_row)) ''pointType'' =
     Some (JString ''competitor'') \<and>
   properties (hd (readPopulationData_row [] sample_row)) ''pointType'' =
     Some (JString ''population'') \<and>
   properties (hd (loadVisiblePopulation_row (Fin 0) (Fin 0) (Fin 50) (Fin 50) [] sample_row))
     ''pointType'' = None"
proof -
  note T = point_type_discriminator [where fs = "[]" and r = sample_row
      and minLng = "Fin 0" and minLat = "Fin 0" and maxLng = "Fin 50" and maxLat = "Fin 50"]
  have n: "sample_row ''pointType'' = None"
    by (simp add: sample_row_def)
  have 1: "properties (hd (readCommercialLandData_row [] sample_row)) ''pointType'' =
     Some (JString ''commercial'')"
    using T [where f = "hd (readCommercialLandData_row [] sample_row)", THEN conjunct1]
      sample_row_kept_2
    by blast
  have 2: "properties (hd (readTrafficData_row [] sample_row)) ''pointType'' =
     Some (JString ''traffic'')"
    using T [where f = "hd (readTrafficData_row [] sample_row)", THEN conjunct2, THEN conjunct1]
      sample_row_kept_3
    by blast
  have 3: "properties (hd (readCompetitionsData_row [] sample_row)) ''pointType'' =
     Some (JString ''competitor'')"
    using T [where f = "hd (readCompetitionsData_row [] sample_row)",
        THEN conjunct2, THEN conjunct2, THEN conjunct1]
      sample_row_kept_1 n
    by simp
  have 4: "properties (hd (readPopulationData_row [] sample_row)) ''pointType'' =
     Some (JString ''population'')"
    using T [where f = "hd (readPopulationData_row [] sample_row)",
        THEN conjunct2, THEN conjunct2, THEN conjunct2, THEN conjunct1]
      sample_row_kept_4 n
    by simp
  have 5: "properties (hd (loadVisiblePopulation_row (Fin 0) (Fin 0) (Fin 50) (Fin 50) []
      sample_row)) ''pointType'' = None"
    using T [where f = "hd (loadVisiblePopulation_row (Fin 0) (Fin 0) (Fin 50) (Fin 50) []
        sample_row)", THEN conjunct2, THEN conjunct2, THEN conjunct2, THEN conjunct2]
      sample_row_kept_5 n
    by simp
  from 1 2 3 4 5 show ?thesis by (intro conjI)
qed

theorem point_type_discriminator_counterexample:
  "map (\<lambda>f. properties f ''pointType'')
     (loadVisiblePopulation_row (Fin 0) (Fin 0) (Fin 50) (Fin 50) []
        [''Longitude'' \<mapsto> ''10'', ''Latitude'' \<mapsto> ''20'', ''BUA_Population'' \<mapsto> ''1234'']) =
     [None] \<and>
   map (\<lambda>f. properties f ''pointType'')
     (readCompetitionsData_row []
        [''longitude'' \<mapsto> ''10'', ''latitude'' \<mapsto> ''20'', ''type'' \<mapsto> ''Storage'',
         ''pointType'' \<mapsto> ''depot'']) =
     [Some (JString ''depot'')]"
  by (simp add: loadVisiblePopulation_row_def readCompetitionsData_row_def parseFloat_10
      parseFloat_20 isNaN_def js_gt_def rest_of_def map_add_def)

section \<open>Coercion of the population count\<close>

text \<open>
  C9, evaluated on one population row given to both paths. The callback of the windowed
  loader emits \<open>BUA_Population\<close> as the integer parsed from the raw string; the callback
  of the whole-file loader leaves \<open>BUA_Population\<close> among the spread columns and emits
  the raw string itself. Both pass every other unmatched column through unchanged.
\<close>

theorem bua_population_coercion:
  "map (\<lambda>f. (properties f ''BUA_Population'', properties f ''BUA_Name''))
     (loadVisiblePopulation_row (Fin 0) (Fin 0) (Fin 50) (Fin 50) []
        [''Longitude'' \<mapsto> ''10'', ''Latitude'' \<mapsto> ''20'', ''BUA_Population'' \<mapsto> ''1234'',
         ''BUA_Name'' \<mapsto> ''Leeds'']) =
     [(Some (JNumber (Fin 1234)), Some (JString ''Leeds''))] \<and>
   map (\<lambda>f. (properties f ''BUA_Population'', properties f ''BUA_Name''))
     (readPopulationData_row []
        [''Longitude'' \<mapsto> ''10'', ''Latitude'' \<mapsto> ''20'', ''BUA_Population'' \<mapsto> ''1234'',
         ''BUA_Name'' \<mapsto> ''Leeds'']) =
     [(Some (JString ''1234''), Some (JString ''Leeds''))]"
  by (simp add: loadVisiblePopulation_row_def readPopulationData_row_def parseFloat_10
      parseFloat_20 isNaN_def js_gt_def rest_of_def map_add_def parseInt10_1234 or_zero_def)

section \<open>Raw columns override the normalized competitor fields\<close>

text \<open>
  C10. In a kept competitor row every raw column other than \<open>longitude\<close> and
  \<open>latitude\<close> is spread into the properties after the normalized fields. So a raw
  column named \<open>address\<close>, \<open>query\<close>, \<open>name\<close>, \<open>phone\<close>, \<open>site\<close> or
  \<open>pointType\<close> supplies the emitted value of that property: the emitted \<open>address\<close> is
  the raw \<open>address\<close> and differs from the raw \<open>full_address\<close> whenever those two
  columns differ, and only without a raw \<open>address\<close> column is it the raw
  \<open>full_address\<close>. The raw \<open>full_address\<close> column stays in the properties under its
  own name.
\<close>

theorem competitor_rest_overrides:
  "readCompetitionsData_row fs r = fs @ [f] \<longrightarrow>
     (k \<in> set [''address'', ''query'', ''name'', ''phone'', ''site'', ''pointType''] \<and>
      r k = Some v \<longrightarrow> properties f k = Some (JString v)) \<and>
     (r ''address'' = Some v \<and> r ''full_address'' \<noteq> Some v \<longrightarrow>
        properties f ''address'' \<noteq> Some (field r ''full_address'')) \<and>
     (r ''address'' = None \<longrightarrow> properties f ''address'' = Some (field r ''full_address'')) \<and>
     (r ''pointType'' = None \<longrightarrow> properties f ''pointType'' = Some (JString ''competitor'')) \<and>
     (r ''full_address'' = Some a \<longrightarrow> properties f ''full_address'' = Some (JString a)) \<and>
     (k \<notin> set [''longitude'', ''latitude''] \<and> r k = Some v \<longrightarrow>
        properties f k = Some (JString v)) \<and>
     properties f ''longitude'' = None \<and> properties f ''latitude'' = None"
proof
  assume "readCompetitionsData_row fs r = fs @ [f]"
  then have p: "properties f =
     [''query'' \<mapsto> field r ''query'',
      ''name'' \<mapsto> field r ''name'',
      ''address'' \<mapsto> field r ''full_address'',
      ''phone'' \<mapsto> field r ''phone'',
      ''site'' \<mapsto> field r ''site'',
      ''pointType'' \<mapsto> JString ''competitor'']
     ++ rest_of [''longitude'', ''latitude''] r"
    by (rule readCompetitionsData_row_properties)
  have 1: "k \<in> set [''address'', ''query'', ''name'', ''phone'', ''site'', ''pointType''] \<and>
      r k = Some v \<longrightarrow> properties f k = Some (JString v)"
    by (auto simp: p map_add_def rest_of_def)
  have 2: "r ''address'' = Some v \<and> r ''full_address'' \<noteq> Some v \<longrightarrow>
        properties f ''address'' \<noteq> Some (field r ''full_address'')"
    by (auto simp: p map_add_def rest_of_def field_def split: option.splits)
  have 3: "r ''address'' = None \<longrightarrow> properties f ''address'' = Some (field r ''full_address'')"
    by (simp add: p map_add_def rest_of_def)
  have 4: "r ''pointType'' = None \<longrightarrow> properties f ''pointType'' = Some (JString ''competitor'')"
    by (simp add: p map_add_def rest_of_def)
  have 5: "r ''full_address'' = Some a \<longrightarrow> properties f ''full_address'' = Some (JString a)"
    by (simp add: p map_add_def rest_of_def)
  have 6: "k \<notin> set [''longitude'', ''latitude''] \<and> r k = Some v \<longrightarrow>
        properties f k = Some (JString v)"
    by (simp add: p map_add_def rest_of_def)
  have 7: "properties f ''longitude'' = None" "properties f ''latitude'' = None"
    by (simp_all add: p map_add_def rest_of_def)
  from 1 2 3 4 5 6 7 show
    "(k \<in> set [''address'', ''query'', ''name'', ''phone'', ''site'', ''pointType''] \<and>
      r k = Some v \<longrightarrow> properties f k = Some (JString v)) \<and>
     (r ''address'' = Some v \<and> r ''full_address'' \<noteq> Some v \<longrightarrow>
        properties f ''address'' \<noteq> Some (field r ''full_address'')) \<and>
     (r ''address'' = None \<longrightarrow> properties f ''address'' = Some (field r ''full_address'')) \<and>
     (r ''pointType'' = None \<longrightarrow> properties f ''pointType'' = Some (JString ''competitor'')) \<and>
     (r ''full_address'' = Some a \<longrightarrow> properties f ''full_address'' = Some (JString a)) \<and>
     (k \<notin> set [''longitude'', ''latitude''] \<and> r k = Some v \<longrightarrow>
        properties f k = Some (JString v)) \<and>
     properties f ''longitude'' = None \<and> properties f ''latitude'' = None"
    by (intro conjI)
qed

theorem competitor_rest_overrides_witness:
  "readCompetitionsData_row [] override_row = [] @ [hd (readCompetitionsData_row [] override_row)] \<and>
   properties (hd (readCompetitionsData_row [] override_row)) ''address'' =
     Some (JString ''Unit 4'') \<and>
   properties (hd (readCompetitionsData_row [] override_row)) ''address'' \<noteq>
     Some (field override_row ''full_address'') \<and>
   properties (hd (readCompetitionsData_row [] override_row)) ''full_address'' =
     Some (JString ''1 High St'') \<and>
   properties (hd (readCompetitionsData_row [] override_row)) ''pointType'' =
     Some (JString ''depot'') \<and>
   properties (hd (readCompetitionsData_row [] sample_row)) ''address'' =
     Some (field sample_row ''full_address'') \<and>
   properties (hd (readCompetitionsData_row [] sample_row)) ''pointType'' =
     Some (JString ''competitor'')"
proof -
  have o: "override_row ''longitude'' = Some ''10''" "override_row ''latitude'' = Some ''20''"
    "override_row ''type'' = Some ''Storage''" "override_row ''address'' = Some ''Unit 4''"
    "override_row ''full_address'' = Some ''1 High St''"
    "override_row ''pointType'' = Some ''depot''"
    by (simp_all add: override_row_def sample_row_def)
  have n: "sample_row ''address'' = None" "sample_row ''pointType'' = None"
    by (simp_all add: sample_row_def)
  have k: "readCompetitionsData_row [] override_row =
      [] @ [hd (readCompetitionsData_row [] override_row)]"
    by (simp add: readCompetitionsData_row_def o parseFloat_10 parseFloat_20 isNaN_def)
  note A = competitor_rest_overrides [where fs = "[]" and r = override_row
      and f = "hd (readCompetitionsData_row [] override_row)"
      and k = "''address''" and v = "''Unit 4''" and a = "''1 High St''"]
  note P = competitor_rest_overrides [where fs = "[]" and r = override_row
      and f = "hd (readCompetitionsData_row [] override_row)"
      and k = "''pointType''" and v = "''depot''" and a = "''1 High St''"]
  note S = competitor_rest_overrides [where fs = "[]" and r = sample_row
      and f = "hd (readCompetitionsData_row [] sample_row)"
      and k = "''address''" and v = "''Unit 4''" and a = "''1 High St''"]
  have 1: "properties (hd (readCompetitionsData_row [] override_row)) ''address'' =
      Some (JString ''Unit 4'')"
    using A k o by simp
  have 2: "properties (hd (readCompetitionsData_row [] override_row)) ''address'' \<noteq>
      Some (field override_row ''full_address'')"
    using A k o by (simp add: field_def)
  have 3: "properties (hd (readCompetitionsData_row [] override_row)) ''full_address'' =
      Some (JString ''1 High St'')"
    using A k o by simp
  have 4: "properties (hd (readCompetitionsData_row [] override_row)) ''pointType'' =
      Some (JString ''depot'')"
    using P k o by simp
  have 5: "properties (hd (readCompetitionsData_row [] sample_row)) ''address'' =
      Some (field sample_row ''full_address'')"
    using S sample_row_kept_1 n by simp
  have 6: "properties (hd (readCompetitionsData_row [] sample_row)) ''pointType'' =
      Some (JString ''competitor'')"
    using S sample_row_kept_1 n by simp
  from k 1 2 3 4 5 6 show ?thesis by (intro conjI)
qed

end
